theory Spec2Isabelle
  imports Complex_Main "HOL-Library.Sublist"
begin

section \<open>Coordinate types\<close>

text \<open>
  The named tuples \<^verbatim>\<open>TZYX\<close> and \<^verbatim>\<open>TCZYX\<close> of the source. A named tuple holds
  whatever it is given (sizes, chunk indices, block shapes), so both are polymorphic.
  The property \<^verbatim>\<open>TCZYX.TZYX\<close> drops the channel axis.
\<close>

datatype 'a tzyx = TZYX (tzyx_T: 'a) (tzyx_Z: 'a) (tzyx_Y: 'a) (tzyx_X: 'a)

datatype 'a tczyx =
  TCZYX (tczyx_T: 'a) (tczyx_C: 'a) (tczyx_Z: 'a) (tczyx_Y: 'a) (tczyx_X: 'a)

definition tczyx_TZYX :: "'a tczyx \<Rightarrow> 'a tzyx" where
  "tczyx_TZYX v = TZYX (tczyx_T v) (tczyx_Z v) (tczyx_Y v) (tczyx_X v)"

text \<open>
  The exceptions the modelled code can raise (a \<^verbatim>\<open>ValueError\<close> keeps its message),
  and \<open>ReaderError\<close> for whatever the external reader raises on a read.
\<close>

datatype error = ValueError string | ZeroDivisionError | TypeError | ReaderError string

section \<open>Python ranges\<close>

text \<open>
  A Python \<^verbatim>\<open>range\<close> object: start, stop and step over unbounded integers. The
  constructor refuses a zero step, so \<open>range3\<close> returns an error there; \<open>range2\<close> is the
  two-argument form with step 1.
\<close>

datatype py_range = Range (r_start: int) (r_stop: int) (r_step: int)

definition range2 :: "int \<Rightarrow> int \<Rightarrow> py_range" where
  "range2 a b = Range a b 1"

definition range3 :: "int \<Rightarrow> int \<Rightarrow> int \<Rightarrow> error + py_range" where
  "range3 a b s =
     (if s = 0 then Inl (ValueError ''range() arg 3 must not be zero'') else Inr (Range a b s))"

text \<open>\<^verbatim>\<open>len(r)\<close>, as CPython computes it.\<close>

definition range_len :: "py_range \<Rightarrow> int" where
  "range_len r =
     (if 0 < r_step r then
        (if r_start r < r_stop r then (r_stop r - r_start r - 1) div r_step r + 1 else 0)
      else
        (if r_stop r < r_start r then (r_start r - r_stop r - 1) div (- r_step r) + 1 else 0))"

text \<open>\<^verbatim>\<open>x in r\<close> for an integer \<open>x\<close>: inside the bounds and on the stride.\<close>

definition range_in :: "int \<Rightarrow> py_range \<Rightarrow> bool" where
  "range_in x r =
     (if 0 < r_step r then r_start r \<le> x \<and> x < r_stop r \<and> (x - r_start r) mod r_step r = 0
      else x \<le> r_start r \<and> r_stop r < x \<and> (x - r_start r) mod r_step r = 0)"

text \<open>\<^verbatim>\<open>r[-1]\<close>; the code reads it only after \<^verbatim>\<open>len(r) >= 2\<close> is known.\<close>

definition range_last :: "py_range \<Rightarrow> int" where
  "range_last r = r_start r + (range_len r - 1) * r_step r"

text \<open>The elements a \<^verbatim>\<open>for\<close> loop over the range visits, in order.\<close>

definition range_elems :: "py_range \<Rightarrow> int list" where
  "range_elems r = map (\<lambda>k. r_start r + int k * r_step r) [0..<nat (range_len r)]"

section \<open>Range containment check\<close>

definition range_contains :: "py_range \<Rightarrow> py_range \<Rightarrow> bool" where
  "range_contains r_inner r_outer =
     (if range_len r_inner = 0 then True
      else if \<not> range_in (r_start r_inner) r_outer then False
      else if range_len r_inner = 1 then True
      else if \<not> range_in (range_last r_inner) r_outer then False
      else if range_len r_inner = 2 then True
      else r_step r_inner mod r_step r_outer = 0)"

section \<open>The source file, as the reader presents it\<close>

text \<open>
  What the code reads from an opened CZI file: the bounding box of the T, C and Z axes
  (start and end of each), the bounding rectangle of each scene that has one, the
  bounding rectangle of the whole image, and the pixels, through
  \<^verbatim>\<open>read(plane={"T": t, "Z": z}, scene=scene, roi=roi)\<close>. The reader is an external
  library: what it answers is part of the file as given. \<open>read_plane t z scene roi\<close>
  is either the exception the read raises or the shape of the array it returns, as
  (rows, columns, pixel components). The call names no channel.
\<close>

datatype rectangle = Rectangle (rect_x: int) (rect_y: int) (rect_w: int) (rect_h: int)

record czi_file =
  bbox_T :: "int \<times> int"
  bbox_C :: "int \<times> int"
  bbox_Z :: "int \<times> int"
  scenes_bounding_rectangle :: "int \<rightharpoonup> rectangle"
  total_bounding_rectangle :: rectangle
  read_plane :: "int \<Rightarrow> int \<Rightarrow> int \<Rightarrow> rectangle \<Rightarrow> error + int \<times> int \<times> int"

text \<open>
  \<^verbatim>\<open>scenes_bounding_rectangle.get(scene, None)\<close>, falling back to the rectangle of the
  whole image when the scene has none.
\<close>

definition bound_rect :: "czi_file \<Rightarrow> int \<Rightarrow> rectangle" where
  "bound_rect input_file scene =
     (case scenes_bounding_rectangle input_file scene of
        None \<Rightarrow> total_bounding_rectangle input_file
      | Some r \<Rightarrow> r)"

definition get_czi_scene_shape :: "czi_file \<Rightarrow> int \<Rightarrow> int tczyx" where
  "get_czi_scene_shape input_file scene =
     (let C = snd (bbox_C input_file) - fst (bbox_C input_file);
          T = snd (bbox_T input_file) - fst (bbox_T input_file);
          Z = snd (bbox_Z input_file) - fst (bbox_Z input_file);
          width = rect_w (bound_rect input_file scene);
          height = rect_h (bound_rect input_file scene)
      in TCZYX T C Z height width)"

section \<open>Blocks and slicing\<close>

text \<open>
  A block is a five-axis box of pixels. The model keeps one list per axis, with one
  entry per position of the block along that axis: for T, Z, Y and X the source
  coordinate that was asked of the reader for that position (the plane for T and Z,
  the pixel row and column for Y and X), for C the position itself, since the read
  names no channel. The pixel values play no part in tiling. The shape of a block is
  the length of each list.
\<close>

type_synonym block = "int list tczyx"

definition shape :: "block \<Rightarrow> int tczyx" where
  "shape b = map_tczyx (\<lambda>xs. int (length xs)) b"

text \<open>
  A slice \<^verbatim>\<open>slice(start, stop)\<close> with an integer start and a stop that is an integer
  or \<^verbatim>\<open>None\<close>. \<open>norm_index\<close> is Python's treatment of one bound on an axis of length
  \<open>n\<close>: a negative bound counts from the end, and both are clamped into \<open>0..n\<close>.
\<close>

datatype slice = Slice (sl_start: int) (sl_stop: "int option")

definition norm_index :: "int \<Rightarrow> int \<Rightarrow> int" where
  "norm_index i n = (if i < 0 then max (i + n) 0 else min i n)"

definition py_slice :: "slice \<Rightarrow> 'a list \<Rightarrow> 'a list" where
  "py_slice s xs =
     (let n = int (length xs);
          a = norm_index (sl_start s) n;
          b = (case sl_stop s of None \<Rightarrow> n | Some j \<Rightarrow> norm_index j n)
      in take (nat (b - a)) (drop (nat a) xs))"

text \<open>Indexing a block with one slice per axis, \<^verbatim>\<open>block[*axes]\<close>.\<close>

definition block_index :: "block \<Rightarrow> slice tczyx \<Rightarrow> block" where
  "block_index b axes =
     TCZYX (py_slice (tczyx_T axes) (tczyx_T b)) (py_slice (tczyx_C axes) (tczyx_C b))
           (py_slice (tczyx_Z axes) (tczyx_Z b)) (py_slice (tczyx_Y axes) (tczyx_Y b))
           (py_slice (tczyx_X axes) (tczyx_X b))"

section \<open>Tile loader\<close>

text \<open>
  \<open>load_chunk\<close> first checks the row and column windows; when the check fails nothing
  is read. Then it allocates the array (a negative channel count is refused) and
  reads the planes \<open>(t, z)\<close> of the T and Z windows in order, each with the region of
  interest \<open>(x, y, w, h)\<close>, and assigns each returned array, its last axis moved to
  the front, to the \<open>(C, len y, len x)\<close> slice of its plane. The assignment
  broadcasts: each extent of the returned array must equal that of the slice or be 1.
  The first read that raises, or whose array does not fit, ends the load with that
  error. The result holds the reads issued, the failing one included, and the error or
  the block.
\<close>

record loaded =
  reads :: "(int \<times> int \<times> rectangle) list"
  outcome :: "error + block"

definition fits :: "int \<Rightarrow> int \<Rightarrow> bool" where
  "fits v n = (v = n \<or> v = 1)"

definition broadcasts :: "int \<times> int \<times> int \<Rightarrow> int \<times> int \<times> int \<Rightarrow> bool" where
  "broadcasts returned target =
     (fits (snd (snd returned)) (fst target)
      \<and> fits (fst returned) (fst (snd target))
      \<and> fits (fst (snd returned)) (snd (snd target)))"

fun read_planes ::
  "czi_file \<Rightarrow> int \<Rightarrow> rectangle \<Rightarrow> int \<times> int \<times> int \<Rightarrow> (int \<times> int) list
     \<Rightarrow> (int \<times> int \<times> rectangle) list \<times> error option" where
  "read_planes input_file scene roi target [] = ([], None)"
| "read_planes input_file scene roi target (p # ps) =
     (case read_plane input_file (fst p) (snd p) scene roi of
        Inl e \<Rightarrow> ([(fst p, snd p, roi)], Some e)
      | Inr returned \<Rightarrow>
          if \<not> broadcasts returned target
          then ([(fst p, snd p, roi)], Some (ValueError ''could not broadcast input array''))
          else ((fst p, snd p, roi) # fst (read_planes input_file scene roi target ps),
                snd (read_planes input_file scene roi target ps)))"

definition load_chunk ::
  "czi_file \<Rightarrow> py_range \<Rightarrow> py_range \<Rightarrow> py_range \<Rightarrow> py_range \<Rightarrow> int \<Rightarrow> loaded" where
  "load_chunk input_file t_range z_range y_range x_range scene =
     (let C = snd (bbox_C input_file) - fst (bbox_C input_file);
          br = bound_rect input_file scene;
          X = range2 (rect_x br) (rect_x br + rect_w br);
          Y = range2 (rect_y br) (rect_y br + rect_h br)
      in if \<not> (range_contains y_range Y \<and> range_contains x_range X)
         then \<lparr> reads = [], outcome = Inl (ValueError ''input range lies outside image'') \<rparr>
         else if C < 0
         then \<lparr> reads = [], outcome = Inl (ValueError ''negative dimensions are not allowed'') \<rparr>
         else
           (let roi = Rectangle (r_start x_range) (r_start y_range)
                        (range_len x_range) (range_len y_range);
                planes = concat (map (\<lambda>t. map (\<lambda>z. (t, z)) (range_elems z_range))
                                     (range_elems t_range));
                res = read_planes input_file scene roi
                        (C, range_len y_range, range_len x_range) planes
            in \<lparr> reads = fst res,
                 outcome =
                   (case snd res of
                      Some e \<Rightarrow> Inl e
                    | None \<Rightarrow>
                        Inr (TCZYX (range_elems t_range)
                               [0..C - 1]
                               (range_elems z_range)
                               [r_start y_range..r_start y_range + range_len y_range - 1]
                               [r_start x_range..r_start x_range + range_len x_range - 1])) \<rparr>))"

text \<open>
  Modelled from the spec: the denoiser \<open>process_block\<close> calls is an external library,
  missing from the source; by its interface it returns a block of identical shape. The
  model of a block holds coordinates only, so the transform leaves it as it is.
\<close>

definition process_block :: "block \<Rightarrow> block" where
  "process_block b = b"

section \<open>Resumability filter\<close>

text \<open>
  The storage chunks of a tile: the product of the per-axis ranges
  \<^verbatim>\<open>range(da_ch * ch_r, (da_ch + 1) * ch_r)\<close>, in the order \<^verbatim>\<open>itertools.product\<close>
  yields them. The tile is done when all of them are in the set.
\<close>

definition storage_chunks :: "int tzyx \<Rightarrow> int tzyx \<Rightarrow> int tzyx list" where
  "storage_chunks da_chunk ratios =
     concat (map (\<lambda>t. concat (map (\<lambda>z. concat (map (\<lambda>y. map (\<lambda>x. TZYX t z y x)
       (range_elems (range2 (tzyx_X da_chunk * tzyx_X ratios) ((tzyx_X da_chunk + 1) * tzyx_X ratios))))
       (range_elems (range2 (tzyx_Y da_chunk * tzyx_Y ratios) ((tzyx_Y da_chunk + 1) * tzyx_Y ratios)))))
       (range_elems (range2 (tzyx_Z da_chunk * tzyx_Z ratios) ((tzyx_Z da_chunk + 1) * tzyx_Z ratios)))))
       (range_elems (range2 (tzyx_T da_chunk * tzyx_T ratios) ((tzyx_T da_chunk + 1) * tzyx_T ratios))))"

definition check_existing_chunks :: "int tzyx \<Rightarrow> int tzyx \<Rightarrow> int tzyx set \<Rightarrow> bool" where
  "check_existing_chunks da_chunk ratios existing =
     list_all (\<lambda>t. t \<in> existing) (storage_chunks da_chunk ratios)"

section \<open>Tile plan builder\<close>

text \<open>
  A \<^verbatim>\<open>for\<close> loop over \<^verbatim>\<open>range(a, b, s)\<close> with a counter that starts at 0 and is
  incremented at the end of the body. The body returns the entries it adds to the
  dictionary, or an error, which ends the loop; the dictionary is the list of its
  entries in insertion order (no key is inserted twice).
\<close>

primrec for_each :: "(nat \<times> int) list \<Rightarrow> (int \<Rightarrow> int \<Rightarrow> error + 'a list) \<Rightarrow> error + 'a list" where
  "for_each [] body = Inr []"
| "for_each (p # ps) body =
     (case body (int (fst p)) (snd p) of
        Inl e \<Rightarrow> Inl e
      | Inr xs \<Rightarrow> (case for_each ps body of Inl e \<Rightarrow> Inl e | Inr ys \<Rightarrow> Inr (xs @ ys)))"

definition for_range ::
  "int \<Rightarrow> int \<Rightarrow> int \<Rightarrow> (int \<Rightarrow> int \<Rightarrow> error + 'a list) \<Rightarrow> error + 'a list" where
  "for_range a b s body =
     (case range3 a b s of
        Inl e \<Rightarrow> Inl e
      | Inr r \<Rightarrow> for_each (enumerate 0 (range_elems r)) body)"

text \<open>
  The arguments of one delayed \<open>load_chunk\<close> call: the read windows of the four tiled
  axes.
\<close>

type_synonym windows = "py_range tzyx"

definition load_chunks_from_czi ::
  "czi_file \<Rightarrow> int tzyx \<Rightarrow> int tzyx \<Rightarrow> int tzyx set \<Rightarrow> int tzyx \<Rightarrow> int
     \<Rightarrow> error + (int tzyx \<times> windows) list" where
  "load_chunks_from_czi input_file chunk_sizes overlap existing ratios scene =
     (let T = snd (bbox_T input_file) - fst (bbox_T input_file);
          Z = snd (bbox_Z input_file) - fst (bbox_Z input_file);
          br = bound_rect input_file scene;
          X_min = rect_x br; width = rect_w br;
          Y_min = rect_y br; height = rect_h br
      in
        for_range 0 T (tzyx_T chunk_sizes) (\<lambda>t_ind t.
        for_range 0 Z (tzyx_Z chunk_sizes) (\<lambda>z_ind z.
        for_range Y_min (Y_min + height) (tzyx_Y chunk_sizes) (\<lambda>y_ind y.
        for_range X_min (X_min + width) (tzyx_X chunk_sizes) (\<lambda>x_ind x.
          (let t_range = range2 (max (t - tzyx_T overlap) 0)
                                (min T (t + tzyx_T chunk_sizes + tzyx_T overlap));
               z_range = range2 (max (z - tzyx_Z overlap) 0)
                                (min Z (z + tzyx_Z chunk_sizes + tzyx_Z overlap));
               y_range = range2 (max (y - tzyx_Y overlap) Y_min)
                                (min (Y_min + height) (y + tzyx_Y chunk_sizes + tzyx_Y overlap));
               x_range = range2 (max (x - tzyx_X overlap) X_min)
                                (min (X_min + width) (x + tzyx_X chunk_sizes + tzyx_X overlap))
           in if \<not> check_existing_chunks (TZYX t_ind z_ind y_ind x_ind) ratios existing
              then Inr [(TZYX t_ind z_ind y_ind x_ind, TZYX t_range z_range y_range x_range)]
              else Inr []))))))"

section \<open>Chunk grid dimensions\<close>

text \<open>
  \<^verbatim>\<open>math.ceil(f / c)\<close>. The source divides in floating point; the model takes the
  ceiling of the exact quotient, which is the same number as long as \<open>f\<close> is below
  \<open>2^53\<close> in absolute value. A zero chunk size raises \<^verbatim>\<open>ZeroDivisionError\<close>.
\<close>

definition ceil_div :: "int \<Rightarrow> int \<Rightarrow> error + int" where
  "ceil_div f c = (if c = 0 then Inl ZeroDivisionError else Inr \<lceil>real_of_int f / real_of_int c\<rceil>)"

definition get_chunk_dims :: "int tczyx \<Rightarrow> int tzyx \<Rightarrow> error + int tzyx" where
  "get_chunk_dims file_values chunk_sizes =
     (case ceil_div (tczyx_T file_values) (tzyx_T chunk_sizes) of Inl e \<Rightarrow> Inl e | Inr nt \<Rightarrow>
     (case ceil_div (tczyx_Z file_values) (tzyx_Z chunk_sizes) of Inl e \<Rightarrow> Inl e | Inr nz \<Rightarrow>
     (case ceil_div (tczyx_Y file_values) (tzyx_Y chunk_sizes) of Inl e \<Rightarrow> Inl e | Inr ny \<Rightarrow>
     (case ceil_div (tczyx_X file_values) (tzyx_X chunk_sizes) of Inl e \<Rightarrow> Inl e | Inr nx \<Rightarrow>
      Inr (TZYX nt nz ny nx)))))"

section \<open>Overlap trimmer\<close>

text \<open>
  The slice \<open>trim\<close> builds for one tiled axis, from the tile's index \<open>c_i\<close> on that
  axis, the number of tiles \<open>n\<close> on it and the overlap \<open>ov\<close>; then the slice of the
  channel axis is inserted at position 1 and the block is indexed.
\<close>

definition trim_axis :: "int \<Rightarrow> int \<Rightarrow> int \<Rightarrow> slice" where
  "trim_axis c_i n ov =
     Slice (if c_i > 0 then ov else 0) (if ov > 0 \<and> c_i < n - 1 then Some (- ov) else None)"

definition trim_axes :: "int tzyx \<Rightarrow> int tzyx \<Rightarrow> int tzyx \<Rightarrow> slice tczyx" where
  "trim_axes ch_index chunk_array overlaps =
     TCZYX (trim_axis (tzyx_T ch_index) (tzyx_T chunk_array) (tzyx_T overlaps))
           (Slice 0 None)
           (trim_axis (tzyx_Z ch_index) (tzyx_Z chunk_array) (tzyx_Z overlaps))
           (trim_axis (tzyx_Y ch_index) (tzyx_Y chunk_array) (tzyx_Y overlaps))
           (trim_axis (tzyx_X ch_index) (tzyx_X chunk_array) (tzyx_X overlaps))"

definition trim :: "block \<Rightarrow> int tzyx \<Rightarrow> int tzyx \<Rightarrow> int tzyx \<Rightarrow> block" where
  "trim b ch_index chunk_array overlaps = block_index b (trim_axes ch_index chunk_array overlaps)"

section \<open>Chunk writer\<close>

text \<open>
  \<open>save_block_to_zarr\<close> writes the block into the section of the output array it
  computes from the chunk index, the chunk size and the shape of the block. The model
  returns that write: the section and the block.
\<close>

record zarr_write =
  zw_section :: "slice tczyx"
  zw_block :: block

definition save_section :: "int \<Rightarrow> int \<Rightarrow> int \<Rightarrow> slice" where
  "save_section i c n = Slice (i * c) (Some (i * c + n))"

definition save_block_to_zarr :: "block \<Rightarrow> int tzyx \<Rightarrow> int tzyx \<Rightarrow> zarr_write" where
  "save_block_to_zarr b chunk_index chunk_sizes =
     (let sh = tczyx_TZYX (shape b)
      in \<lparr> zw_section = TCZYX (save_section (tzyx_T chunk_index) (tzyx_T chunk_sizes) (tzyx_T sh))
                            (Slice 0 None)
                            (save_section (tzyx_Z chunk_index) (tzyx_Z chunk_sizes) (tzyx_Z sh))
                            (save_section (tzyx_Y chunk_index) (tzyx_Y chunk_sizes) (tzyx_Y sh))
                            (save_section (tzyx_X chunk_index) (tzyx_X chunk_sizes) (tzyx_X sh)),
             zw_block = b \<rparr>)"

text \<open>The output coordinates a section covers along one axis of length \<open>n\<close>.\<close>

definition section_cells :: "slice \<Rightarrow> int \<Rightarrow> int set" where
  "section_cells s n =
     {norm_index (sl_start s) n ..<
      (case sl_stop s of None \<Rightarrow> n | Some j \<Rightarrow> norm_index j n)}"

section \<open>Driver\<close>

subsection \<open>Store keys\<close>

text \<open>
  \<^verbatim>\<open>k.split('.')\<close>, and \<^verbatim>\<open>int(s)\<close> for the decimal spelling the store's chunk keys
  use: an optional sign and one or more ASCII digits. Anything else is a
  \<^verbatim>\<open>ValueError\<close> in the model (Python also reads surrounding white space and
  underscores between digits, which no chunk key has).
\<close>

fun split_dot :: "string \<Rightarrow> string list" where
  "split_dot [] = [[]]"
| "split_dot (c # cs) =
     (if c = CHR ''.'' then [] # split_dot cs
      else (c # hd (split_dot cs)) # tl (split_dot cs))"

definition is_digit :: "char \<Rightarrow> bool" where
  "is_digit c = (48 \<le> (of_char c :: nat) \<and> (of_char c :: nat) \<le> 57)"

definition digits_val :: "string \<Rightarrow> int" where
  "digits_val ds = foldl (\<lambda>acc c. 10 * acc + (int (of_char c) - 48)) 0 ds"

definition py_int :: "string \<Rightarrow> error + int" where
  "py_int s =
     (let neg = (s \<noteq> [] \<and> hd s = CHR ''-'');
          ds = (if s \<noteq> [] \<and> (hd s = CHR ''-'' \<or> hd s = CHR ''+'') then tl s else s)
      in if ds \<noteq> [] \<and> list_all is_digit ds
         then Inr (if neg then - digits_val ds else digits_val ds)
         else Inl (ValueError ''invalid literal for int() with base 10''))"

text \<open>Evaluating a list of results in order: the first error wins.\<close>

primrec sequence :: "(error + 'a) list \<Rightarrow> error + 'a list" where
  "sequence [] = Inr []"
| "sequence (r # rs) =
     (case r of
        Inl e \<Rightarrow> Inl e
      | Inr v \<Rightarrow> (case sequence rs of Inl e \<Rightarrow> Inl e | Inr vs \<Rightarrow> Inr (v # vs)))"

text \<open>\<^verbatim>\<open>TCZYX(*xs)\<close>: exactly five arguments, or a \<^verbatim>\<open>TypeError\<close>.\<close>

fun to_TCZYX :: "'a list \<Rightarrow> error + 'a tczyx" where
  "to_TCZYX [t, c, z, y, x] = Inr (TCZYX t c z y x)"
| "to_TCZYX _ = Inl TypeError"

text \<open>\<^verbatim>\<open>TCZYX(*map(int, k.split('.')))\<close> for one key.\<close>

definition parse_key :: "string \<Rightarrow> error + int tczyx" where
  "parse_key k =
     (case sequence (map py_int (split_dot k)) of
        Inl e \<Rightarrow> Inl e
      | Inr xs \<Rightarrow> to_TCZYX xs)"

text \<open>
  The set of existing chunks: every key of the store but \<^verbatim>\<open>.zarray\<close> is parsed, and
  the TZYX part of each coordinate is collected.
\<close>

definition existing_chunks :: "string list \<Rightarrow> error + int tzyx set" where
  "existing_chunks store_keys =
     (case sequence (map parse_key (filter (\<lambda>k. k \<noteq> ''.zarray'') store_keys)) of
        Inl e \<Rightarrow> Inl e
      | Inr cs \<Rightarrow> Inr (set (map tczyx_TZYX cs)))"

subsection \<open>Checks at startup\<close>

text \<open>
  The loop over the pairs \<open>(f_ch, d_ch)\<close> of a chunk size of the output store and the
  size of the dask chunk on the same axis, in the order T, Z, Y, X.
\<close>

fun check_chunks :: "(int \<times> int) list \<Rightarrow> error + unit" where
  "check_chunks [] = Inr ()"
| "check_chunks ((f_ch, d_ch) # rest) =
     (if f_ch > d_ch then Inl (ValueError ''Dask chunks smaller than output chunks'')
      else if f_ch = 0 then Inl ZeroDivisionError
      else if d_ch mod f_ch \<noteq> 0 then Inl (ValueError ''Dask chunks not multiples of output chunks'')
      else check_chunks rest)"

definition tzyx_list :: "'a tzyx \<Rightarrow> 'a list" where
  "tzyx_list v = [tzyx_T v, tzyx_Z v, tzyx_Y v, tzyx_X v]"

definition tczyx_list :: "'a tczyx \<Rightarrow> 'a list" where
  "tczyx_list v = [tczyx_T v, tczyx_C v, tczyx_Z v, tczyx_Y v, tczyx_X v]"

text \<open>\<^verbatim>\<open>d_c // f_c\<close>, per axis; Python's floor division is \<open>div\<close> on \<open>int\<close>.\<close>

definition floor_div :: "int \<Rightarrow> int \<Rightarrow> error + int" where
  "floor_div d_c f_c = (if f_c = 0 then Inl ZeroDivisionError else Inr (d_c div f_c))"

definition chunk_ratios :: "int tzyx \<Rightarrow> int tczyx \<Rightarrow> error + int tzyx" where
  "chunk_ratios chunk_sizes output_chunks =
     (case floor_div (tzyx_T chunk_sizes) (tczyx_T output_chunks) of Inl e \<Rightarrow> Inl e | Inr rt \<Rightarrow>
     (case floor_div (tzyx_Z chunk_sizes) (tczyx_Z output_chunks) of Inl e \<Rightarrow> Inl e | Inr rz \<Rightarrow>
     (case floor_div (tzyx_Y chunk_sizes) (tczyx_Y output_chunks) of Inl e \<Rightarrow> Inl e | Inr ry \<Rightarrow>
     (case floor_div (tzyx_X chunk_sizes) (tczyx_X output_chunks) of Inl e \<Rightarrow> Inl e | Inr rx \<Rightarrow>
      Inr (TZYX rt rz ry rx)))))"

subsection \<open>The run\<close>

text \<open>
  The parameters the source declares at the top of the driver, and the output array as
  the store presents it: its chunk shape and its keys. When no array exists at the
  output path the driver creates one with the configured chunk shape.
\<close>

record config =
  cfg_scene :: int
  cfg_chunk_sizes :: "int tzyx"
  cfg_overlaps :: "int tzyx"
  cfg_output_chunks :: "int tczyx"

record zarr_array =
  zarr_chunks :: "int list"
  zarr_keys :: "string list"

definition source_config :: config where
  "source_config =
     \<lparr> cfg_scene = 0, cfg_chunk_sizes = TZYX 17 1501 512 484,
       cfg_overlaps = TZYX 2 4 16 16, cfg_output_chunks = TCZYX 1 1 1501 512 484 \<rparr>"

definition open_or_create :: "config \<Rightarrow> zarr_array option \<Rightarrow> zarr_array" where
  "open_or_create cfg store =
     (case store of
        Some z \<Rightarrow> z
      | None \<Rightarrow> \<lparr> zarr_chunks = tczyx_list (cfg_output_chunks cfg), zarr_keys = [''.zarray''] \<rparr>)"

text \<open>
  One tile's pipeline: load, transform, trim, save. The load can fail; the result is
  the write the pipeline ends with.
\<close>

definition run_tile ::
  "czi_file \<Rightarrow> config \<Rightarrow> int tzyx \<Rightarrow> int tzyx \<times> windows \<Rightarrow> error + zarr_write" where
  "run_tile input_file cfg chunk_array tile =
     (case outcome (load_chunk input_file (tzyx_T (snd tile)) (tzyx_Z (snd tile)) (tzyx_Y (snd tile))
             (tzyx_X (snd tile)) 0) of
        Inl e \<Rightarrow> Inl e
      | Inr b \<Rightarrow>
          Inr (save_block_to_zarr
                 (trim (process_block b) (fst tile) chunk_array (cfg_overlaps cfg))
                 (fst tile) (cfg_chunk_sizes cfg)))"

text \<open>
  The driver up to the point where the graph is handed to the executor: the grid
  dimensions, the startup checks, the set of existing chunks, the chunk ratios and the
  plan; then one pipeline per tile of the plan. An error before the plan aborts the run
  with nothing scheduled.
\<close>

definition driver ::
  "czi_file \<Rightarrow> config \<Rightarrow> zarr_array option
     \<Rightarrow> error + (int tzyx \<times> (error + zarr_write)) list" where
  "driver input_file cfg store =
     (let chunk_sizes = cfg_chunk_sizes cfg;
          file_array = get_czi_scene_shape input_file (cfg_scene cfg)
      in case get_chunk_dims file_array chunk_sizes of Inl e \<Rightarrow> Inl e | Inr chunk_array \<Rightarrow>
        (let output_zarr = open_or_create cfg store
         in case to_TCZYX (zarr_chunks output_zarr) of Inl e \<Rightarrow> Inl e | Inr output_zarr_chunks \<Rightarrow>
           (case check_chunks (zip (tzyx_list (tczyx_TZYX output_zarr_chunks)) (tzyx_list chunk_sizes)) of
              Inl e \<Rightarrow> Inl e
            | Inr _ \<Rightarrow>
           (case existing_chunks (zarr_keys output_zarr) of Inl e \<Rightarrow> Inl e | Inr existing \<Rightarrow>
           (case chunk_ratios chunk_sizes (cfg_output_chunks cfg) of Inl e \<Rightarrow> Inl e | Inr ratios \<Rightarrow>
           (case load_chunks_from_czi input_file chunk_sizes (cfg_overlaps cfg) existing ratios 0 of
              Inl e \<Rightarrow> Inl e
            | Inr data_array \<Rightarrow>
                Inr (map (\<lambda>tile. (fst tile, run_tile input_file cfg chunk_array tile)) data_array)))))))"

section \<open>The filter, in the words of its contract\<close>

text \<open>
  The storage coordinates of a tile as the contract of the filter names them: on each
  axis the range from \<open>tile_index * ratio\<close> up to but excluding
  \<open>(tile_index + 1) * ratio\<close>, and the Cartesian product of the four ranges.
\<close>

definition storage_footprint :: "int tzyx \<Rightarrow> int tzyx \<Rightarrow> int tzyx set" where
  "storage_footprint tile_index ratio =
     {c. tzyx_T c \<in> {tzyx_T tile_index * tzyx_T ratio ..< (tzyx_T tile_index + 1) * tzyx_T ratio}
       \<and> tzyx_Z c \<in> {tzyx_Z tile_index * tzyx_Z ratio ..< (tzyx_Z tile_index + 1) * tzyx_Z ratio}
       \<and> tzyx_Y c \<in> {tzyx_Y tile_index * tzyx_Y ratio ..< (tzyx_Y tile_index + 1) * tzyx_Y ratio}
       \<and> tzyx_X c \<in> {tzyx_X tile_index * tzyx_X ratio ..< (tzyx_X tile_index + 1) * tzyx_X ratio}}"

section \<open>Two concrete runs\<close>

text \<open>
  The reader of the concrete runs: it refuses a plane whose T lies outside the bounding
  box it is given, and answers every other read with an array of the rows and columns
  of the region and one pixel component.
\<close>

definition plane_read ::
  "int \<times> int \<Rightarrow> int \<Rightarrow> int \<Rightarrow> int \<Rightarrow> rectangle \<Rightarrow> error + int \<times> int \<times> int" where
  "plane_read tb t z scene roi =
     (if fst tb \<le> t \<and> t < snd tb then Inr (rect_h roi, rect_w roi, 1)
      else Inl (ReaderError ''T out of range''))"

text \<open>
  The end-to-end scenario: an image of extent T=4, C=2, Z=1, Y=8, X=8 with no scene
  rectangle, tiles of size T=2, Z=1, Y=4, X=4 and overlaps T=1, Z=0, Y=1, X=1, written
  to a store that does not exist yet.
\<close>

definition scenario_file :: czi_file where
  "scenario_file =
     \<lparr> bbox_T = (0, 4), bbox_C = (0, 2), bbox_Z = (0, 1),
       scenes_bounding_rectangle = Map.empty,
       total_bounding_rectangle = Rectangle 0 0 8 8,
       read_plane = plane_read (0, 4) \<rparr>"

definition scenario_config :: config where
  "scenario_config =
     \<lparr> cfg_scene = 0, cfg_chunk_sizes = TZYX 2 1 4 4,
       cfg_overlaps = TZYX 1 0 1 1, cfg_output_chunks = TCZYX 2 2 1 4 4 \<rparr>"

text \<open>
  An image of 9 rows and 4 columns (one plane, one channel), tiles of 4 rows with an
  overlap of 2 rows: the last tile along Y holds the single row 8, fewer rows than the
  overlap.
\<close>

definition gap_file :: czi_file where
  "gap_file =
     \<lparr> bbox_T = (0, 1), bbox_C = (0, 1), bbox_Z = (0, 1),
       scenes_bounding_rectangle = Map.empty,
       total_bounding_rectangle = Rectangle 0 0 4 9,
       read_plane = plane_read (0, 1) \<rparr>"

definition gap_config :: config where
  "gap_config =
     \<lparr> cfg_scene = 0, cfg_chunk_sizes = TZYX 1 1 4 4,
       cfg_overlaps = TZYX 0 0 2 0, cfg_output_chunks = TCZYX 1 1 1 4 4 \<rparr>"

section \<open>The coordinates the store's keys name\<close>

text \<open>
  The five-axis coordinates named by the keys of a store, \<^verbatim>\<open>.zarray\<close> apart: what the
  snapshot of existing chunks is built from, before the channel axis is dropped.
\<close>

definition key_coords :: "string list \<Rightarrow> int tczyx set" where
  "key_coords store_keys =
     {c. \<exists>k \<in> set store_keys. k \<noteq> ''.zarray'' \<and> parse_key k = Inr c}"

text \<open>
  The key of the chunk at a coordinate, in the form the driver parses: the five indices
  T, C, Z, Y, X in decimal (\<open>py_str\<close> is Python's \<^verbatim>\<open>str\<close> of an integer), joined by
  dots.
\<close>

definition digit_char :: "nat \<Rightarrow> char" where
  "digit_char d = char_of (48 + d)"

fun digits :: "nat \<Rightarrow> string" where
  "digits n = (if n < 10 then [digit_char n] else digits (n div 10) @ [digit_char (n mod 10)])"

definition py_str :: "int \<Rightarrow> string" where
  "py_str i = (if i < 0 then CHR ''-'' # digits (nat (- i)) else digits (nat i))"

definition chunk_key :: "int tczyx \<Rightarrow> string" where
  "chunk_key c =
     py_str (tczyx_T c) @ CHR ''.'' # py_str (tczyx_C c) @ CHR ''.'' # py_str (tczyx_Z c)
       @ CHR ''.'' # py_str (tczyx_Y c) @ CHR ''.'' # py_str (tczyx_X c)"

section \<open>Ranges: length, membership and elements\<close>

lemma range_len_nonneg: "0 \<le> range_len r"
proof -
  have "0 \<le> a div s + 1" if "0 \<le> a" "0 \<le> s" for a s :: int
    using that by (simp add: pos_imp_zdiv_nonneg_iff div_int_pos_iff)
  then show ?thesis
    by (auto simp: range_len_def)
qed

lemma length_range_elems: "length (range_elems r) = nat (range_len r)"
  by (simp add: range_elems_def)

lemma range_elems_Nil_iff: "range_elems r = [] \<longleftrightarrow> range_len r = 0"
  using range_len_nonneg [of r] by (simp add: range_elems_def)

lemma range_last_elems:
  "range_len r \<noteq> 0 \<Longrightarrow> range_last r = last (range_elems r)"
  using range_len_nonneg [of r]
  by (simp add: range_elems_def range_last_def last_map last_conv_nth nat_diff_distrib)

text \<open>The points of a positive stride between two bounds, counted from the first.\<close>

lemma stride_pos:
  fixes a b s x :: int
  assumes "0 < s" "a < b"
  shows "(a \<le> x \<and> x < b \<and> (x - a) mod s = 0) \<longleftrightarrow>
         (\<exists>k. k < nat ((b - a - 1) div s + 1) \<and> x = a + int k * s)"
proof
  assume h: "a \<le> x \<and> x < b \<and> (x - a) mod s = 0"
  define k where "k = (x - a) div s"
  have k0: "0 \<le> k" using h assms by (simp add: k_def pos_imp_zdiv_nonneg_iff)
  have "s dvd x - a" using h by (simp add: mod_0_imp_dvd)
  then have "x - a = k * s" by (simp add: k_def)
  then have xe: "x = a + int (nat k) * s" using k0 by simp
  have "k \<le> (b - a - 1) div s" unfolding k_def
    using h assms by (intro zdiv_mono1) auto
  then have "nat k < nat ((b - a - 1) div s + 1)" using k0 by simp
  with xe show "\<exists>k. k < nat ((b - a - 1) div s + 1) \<and> x = a + int k * s" by blast
next
  assume "\<exists>k. k < nat ((b - a - 1) div s + 1) \<and> x = a + int k * s"
  then obtain k where k: "k < nat ((b - a - 1) div s + 1)" "x = a + int k * s" by blast
  then have "int k \<le> (b - a - 1) div s" by simp
  then have "int k * s \<le> ((b - a - 1) div s) * s" using assms by (simp add: mult_right_mono)
  moreover have "((b - a - 1) div s) * s + (b - a - 1) mod s = b - a - 1" by simp
  moreover have "0 \<le> (b - a - 1) mod s" using assms by simp
  ultimately have "x < b" using k by linarith
  moreover have "a \<le> x" using k assms by simp
  moreover have "(x - a) mod s = 0" using k by simp
  ultimately show "a \<le> x \<and> x < b \<and> (x - a) mod s = 0" by blast
qed

lemma range_in_elems:
  assumes "r_step r \<noteq> 0"
  shows "range_in x r \<longleftrightarrow> x \<in> set (range_elems r)"
proof (cases "0 < r_step r")
  case True
  show ?thesis
  proof (cases "r_start r < r_stop r")
    case lt: True
    show ?thesis
      using stride_pos [OF True lt, of x] True lt
      by (auto simp: range_in_def range_elems_def range_len_def image_iff)
  next
    case False
    then show ?thesis using True
      by (auto simp: range_in_def range_elems_def range_len_def)
  qed
next
  case False
  then have neg: "0 < - r_step r" using assms by simp
  show ?thesis
  proof (cases "r_stop r < r_start r")
    case lt: True
    then have lt': "- r_start r < - r_stop r" by simp
    have m: "(x - r_start r) mod r_step r = 0 \<longleftrightarrow> (- x - - r_start r) mod - r_step r = 0"
      by (metis (no_types) minus_diff_eq mod_minus_minus neg_equal_0_iff_equal
          diff_minus_eq_add uminus_add_conv_diff)
    have e: "(x = r_start r + int k * r_step r) \<longleftrightarrow> (- x = - r_start r + int k * - r_step r)"
      for k by auto
    show ?thesis
      using stride_pos [OF neg lt', of "- x"] False lt m e
      by (auto simp: range_in_def range_elems_def range_len_def image_iff)
  next
    case ge: False
    then show ?thesis using False
      by (auto simp: range_in_def range_elems_def range_len_def)
  qed
qed

lemma set_range2: "set (range_elems (range2 a b)) = {a..<b}"
proof -
  have "x \<in> set (range_elems (range2 a b)) \<longleftrightarrow> x \<in> {a..<b}" for x
    using range_in_elems [of "range2 a b" x]
    by (auto simp: range2_def range_in_def)
  then show ?thesis by blast
qed

section \<open>The rules of the containment check\<close>

text \<open>
  Claim C4. On ranges (whose steps are never zero) the containment check applies these
  rules in order, stated on the elements of the ranges: an empty inner range is
  contained; an inner start that is not an element of the outer range is not; an inner
  range of exactly one element is; an inner last element that is not an element of the
  outer range is not; an inner range of exactly two elements is; otherwise the answer
  is whether the inner step is 0 modulo the outer step. The check is a function of its
  two arguments and returns only this truth value.
\<close>

theorem range_contains_rules:
  assumes "r_step inner \<noteq> 0" and "r_step outer \<noteq> 0"
  shows "range_contains inner outer =
    (if range_elems inner = [] then True
     else if r_start inner \<notin> set (range_elems outer) then False
     else if length (range_elems inner) = 1 then True
     else if last (range_elems inner) \<notin> set (range_elems outer) then False
     else if length (range_elems inner) = 2 then True
     else r_step inner mod r_step outer = 0)"
proof -
  have n: "0 \<le> range_len inner" by (rule range_len_nonneg)
  have l1: "length (range_elems inner) = Suc 0 \<longleftrightarrow> range_len inner = 1"
    using n by (auto simp: length_range_elems)
  have l2: "length (range_elems inner) = 2 \<longleftrightarrow> range_len inner = 2"
    using n by (auto simp: length_range_elems)
  show ?thesis
    unfolding range_contains_def
    by (simp add: range_elems_Nil_iff l1 l2 range_in_elems [OF assms(2)] range_last_elems)
qed

theorem range_contains_rules_witness:
  "range_contains (range2 2 5) (range2 0 10) \<and> \<not> range_contains (range2 8 12) (range2 0 10)"
proof -
  have s: "r_step (range2 a b) \<noteq> 0" for a b by (simp add: range2_def)
  have e1: "range_elems (range2 2 5) = [2, 3, 4]"
    and e2: "range_elems (range2 8 12) = [8, 9, 10, 11]"
    and e3: "range_elems (range2 0 10) = [0, 1, 2, 3, 4, 5, 6, 7, 8, 9]"
    by (simp_all add: range_elems_def range2_def range_len_def upt_rec)
  show ?thesis
    using range_contains_rules [OF s s, of 2 5 0 10] range_contains_rules [OF s s, of 8 12 0 10]
    by (simp add: e1 e2 e3) (simp add: range2_def)
qed

section \<open>Resumability filter: what it decides\<close>

lemma set_storage_chunks:
  "set (storage_chunks da_chunk ratios) = storage_footprint da_chunk ratios"
proof -
  have "c \<in> set (storage_chunks da_chunk ratios) \<longleftrightarrow> c \<in> storage_footprint da_chunk ratios"
    for c
    by (cases c) (auto simp: storage_chunks_def storage_footprint_def set_range2 image_iff)
  then show ?thesis by blast
qed

lemma check_existing_chunks_subset:
  "check_existing_chunks da_chunk ratios existing
     \<longleftrightarrow> storage_footprint da_chunk ratios \<subseteq> existing"
  by (auto simp: check_existing_chunks_def list_all_iff set_storage_chunks)

text \<open>
  Claim C6. For every tile index, chunk ratio and set of existing chunks, the filter
  returns true exactly when every coordinate of the Cartesian product of the per-axis
  ranges \<open>[tile_index * ratio, (tile_index + 1) * ratio)\<close> is in the set. So it returns
  true when all of them are present, and false once any one of them is removed.
\<close>

theorem check_existing_chunks_footprint:
  "(check_existing_chunks tile_index ratio existing
      \<longleftrightarrow> storage_footprint tile_index ratio \<subseteq> existing)
   \<and> (storage_footprint tile_index ratio \<subseteq> existing
      \<longrightarrow> check_existing_chunks tile_index ratio existing)
   \<and> (\<forall>c \<in> storage_footprint tile_index ratio.
        \<not> check_existing_chunks tile_index ratio (existing - {c}))"
  by (auto simp: check_existing_chunks_subset)

theorem check_existing_chunks_footprint_witness:
  "check_existing_chunks (TZYX 0 0 0 0) (TZYX 1 1 2 2)
     {TZYX 0 0 0 0, TZYX 0 0 0 1, TZYX 0 0 1 0, TZYX 0 0 1 1}
   \<and> \<not> check_existing_chunks (TZYX 0 0 0 0) (TZYX 1 1 2 2)
     ({TZYX 0 0 0 0, TZYX 0 0 0 1, TZYX 0 0 1 0, TZYX 0 0 1 1} - {TZYX 0 0 1 0})"
proof -
  let ?S = "{TZYX 0 0 0 0, TZYX 0 0 0 1, TZYX 0 0 1 0, TZYX 0 0 1 1 :: int tzyx}"
  have e: "range_elems (range2 0 1) = [0]" "range_elems (range2 0 2) = [0, 1]"
    by (simp_all add: range_elems_def range2_def range_len_def upt_rec)
  have "storage_chunks (TZYX 0 0 0 0) (TZYX 1 1 2 2)
          = [TZYX 0 0 0 0, TZYX 0 0 0 1, TZYX 0 0 1 0, TZYX 0 0 1 1]"
    by (simp add: storage_chunks_def e)
  then have f: "storage_footprint (TZYX 0 0 0 0) (TZYX 1 1 2 2) = ?S"
    using set_storage_chunks [of "TZYX 0 0 0 0" "TZYX 1 1 2 2"] by simp
  note t = check_existing_chunks_footprint [of "TZYX 0 0 0 0" "TZYX 1 1 2 2" ?S]
  from t f have "check_existing_chunks (TZYX 0 0 0 0) (TZYX 1 1 2 2) ?S" by simp
  moreover from t f
  have "\<not> check_existing_chunks (TZYX 0 0 0 0) (TZYX 1 1 2 2) (?S - {TZYX 0 0 1 0})"
    by blast
  ultimately show ?thesis by blast
qed

text \<open>
  Claim C9. When the chunk ratio of any axis is 0, the filter returns true for every
  tile index and every set of existing chunks: the range of that axis is empty, so
  there is no storage coordinate to look for. The filter itself does not ask the ratio
  to be positive.
\<close>

theorem zero_ratio_always_skipped:
  assumes "tzyx_T ratios = 0 \<or> tzyx_Z ratios = 0 \<or> tzyx_Y ratios = 0 \<or> tzyx_X ratios = 0"
  shows "check_existing_chunks da_chunk ratios existing"
proof -
  have "storage_footprint da_chunk ratios = {}"
    using assms by (auto simp: storage_footprint_def)
  then show ?thesis by (simp add: check_existing_chunks_subset)
qed

theorem zero_ratio_always_skipped_witness:
  "check_existing_chunks (TZYX 3 2 1 0) (TZYX 1 0 1 1) {}"
  using zero_ratio_always_skipped [of "TZYX 1 0 1 1" "TZYX 3 2 1 0" "{}"] by simp

section \<open>Overlap trimmer: the slices it takes\<close>

lemma py_slice_from_0: "prefix (py_slice (Slice 0 hi) xs) xs"
  by (simp add: py_slice_def norm_index_def Let_def take_is_prefix)

lemma py_slice_to_end: "suffix (py_slice (Slice lo None) xs) xs"
proof -
  have "0 \<le> norm_index lo (int (length xs))" "norm_index lo (int (length xs)) \<le> int (length xs)"
    by (auto simp: norm_index_def)
  then have "py_slice (Slice lo None) xs = drop (nat (norm_index lo (int (length xs)))) xs"
    by (simp add: py_slice_def Let_def nat_diff_distrib)
  then show ?thesis by (simp add: suffix_drop)
qed

lemma py_slice_all: "py_slice (Slice 0 None) xs = xs"
  by (simp add: py_slice_def norm_index_def Let_def)

text \<open>
  Claim C7. For every block, tile index, grid dimensions and overlaps, \<open>trim\<close> slices
  each tiled axis from the overlap if the tile index on that axis is positive and from
  0 otherwise, up to minus the overlap if the overlap is positive and the tile index is
  below the last grid position, and up to the end otherwise. So at grid position 0 of
  an axis the trimmed block starts where the block starts, and at the last grid position
  it ends where the block ends, whatever the overlap. The channel axis is passed through
  as it is.
\<close>

theorem trim_slices:
  "trim b ch_index chunk_array overlaps =
     TCZYX
       (py_slice (Slice (if tzyx_T ch_index > 0 then tzyx_T overlaps else 0)
                        (if tzyx_T overlaps > 0 \<and> tzyx_T ch_index < tzyx_T chunk_array - 1
                         then Some (- tzyx_T overlaps) else None)) (tczyx_T b))
       (tczyx_C b)
       (py_slice (Slice (if tzyx_Z ch_index > 0 then tzyx_Z overlaps else 0)
                        (if tzyx_Z overlaps > 0 \<and> tzyx_Z ch_index < tzyx_Z chunk_array - 1
                         then Some (- tzyx_Z overlaps) else None)) (tczyx_Z b))
       (py_slice (Slice (if tzyx_Y ch_index > 0 then tzyx_Y overlaps else 0)
                        (if tzyx_Y overlaps > 0 \<and> tzyx_Y ch_index < tzyx_Y chunk_array - 1
                         then Some (- tzyx_Y overlaps) else None)) (tczyx_Y b))
       (py_slice (Slice (if tzyx_X ch_index > 0 then tzyx_X overlaps else 0)
                        (if tzyx_X overlaps > 0 \<and> tzyx_X ch_index < tzyx_X chunk_array - 1
                         then Some (- tzyx_X overlaps) else None)) (tczyx_X b))
   \<and> (tzyx_T ch_index = 0 \<longrightarrow> prefix (tczyx_T (trim b ch_index chunk_array overlaps)) (tczyx_T b))
   \<and> (tzyx_Z ch_index = 0 \<longrightarrow> prefix (tczyx_Z (trim b ch_index chunk_array overlaps)) (tczyx_Z b))
   \<and> (tzyx_Y ch_index = 0 \<longrightarrow> prefix (tczyx_Y (trim b ch_index chunk_array overlaps)) (tczyx_Y b))
   \<and> (tzyx_X ch_index = 0 \<longrightarrow> prefix (tczyx_X (trim b ch_index chunk_array overlaps)) (tczyx_X b))
   \<and> (tzyx_T ch_index = tzyx_T chunk_array - 1
        \<longrightarrow> suffix (tczyx_T (trim b ch_index chunk_array overlaps)) (tczyx_T b))
   \<and> (tzyx_Z ch_index = tzyx_Z chunk_array - 1
        \<longrightarrow> suffix (tczyx_Z (trim b ch_index chunk_array overlaps)) (tczyx_Z b))
   \<and> (tzyx_Y ch_index = tzyx_Y chunk_array - 1
        \<longrightarrow> suffix (tczyx_Y (trim b ch_index chunk_array overlaps)) (tczyx_Y b))
   \<and> (tzyx_X ch_index = tzyx_X chunk_array - 1
        \<longrightarrow> suffix (tczyx_X (trim b ch_index chunk_array overlaps)) (tczyx_X b))
   \<and> tczyx_C (trim b ch_index chunk_array overlaps) = tczyx_C b"
  by (simp add: trim_def trim_axes_def trim_axis_def block_index_def py_slice_all
      py_slice_from_0 py_slice_to_end)

theorem trim_slices_witness:
  "trim (TCZYX [0, 1, 2] [0, 1] [0] [0, 1, 2, 3, 4] [3, 4, 5, 6, 7])
        (TZYX 0 0 0 1) (TZYX 2 1 2 2) (TZYX 1 0 1 1)
     = TCZYX [0, 1] [0, 1] [0] [0, 1, 2, 3] [4, 5, 6, 7]
   \<and> prefix [0, 1] [0, 1, 2 :: int]
   \<and> suffix [4, 5, 6, 7] [3, 4, 5, 6, 7 :: int]"
proof -
  note t = trim_slices [of "TCZYX [0, 1, 2] [0, 1] [0] [0, 1, 2, 3, 4] [3, 4, 5, 6, 7]"
      "TZYX 0 0 0 1" "TZYX 2 1 2 2" "TZYX 1 0 1 1"]
  from t [THEN conjunct1]
  have e: "trim (TCZYX [0, 1, 2] [0, 1] [0] [0, 1, 2, 3, 4] [3, 4, 5, 6, 7])
        (TZYX 0 0 0 1) (TZYX 2 1 2 2) (TZYX 1 0 1 1)
     = TCZYX [0, 1] [0, 1] [0] [0, 1, 2, 3] [4, 5, 6, 7]"
    by (simp add: py_slice_def norm_index_def)
  from t [THEN conjunct2, THEN conjunct1]
  have p: "prefix (tczyx_T (trim (TCZYX [0, 1, 2] [0, 1] [0] [0, 1, 2, 3, 4] [3, 4, 5, 6, 7])
        (TZYX 0 0 0 1) (TZYX 2 1 2 2) (TZYX 1 0 1 1))) [0, 1, 2]"
    by simp
  from t [THEN conjunct2, THEN conjunct2, THEN conjunct2, THEN conjunct2, THEN conjunct2,
      THEN conjunct2, THEN conjunct2, THEN conjunct2, THEN conjunct1]
  have s: "suffix (tczyx_X (trim (TCZYX [0, 1, 2] [0, 1] [0] [0, 1, 2, 3, 4] [3, 4, 5, 6, 7])
        (TZYX 0 0 0 1) (TZYX 2 1 2 2) (TZYX 1 0 1 1))) [3, 4, 5, 6, 7]"
    by simp
  from p [unfolded e] s [unfolded e] have "prefix [0, 1] [0, 1, 2 :: int]"
    and "suffix [4, 5, 6, 7] [3, 4, 5, 6, 7 :: int]"
    by simp_all
  with e show ?thesis by (intro conjI)
qed

section \<open>Tile plan builder: the windows of the plan\<close>

lemma for_each_mem:
  "for_each ps body = Inr xs \<Longrightarrow> x \<in> set xs
     \<Longrightarrow> \<exists>p \<in> set ps. \<exists>ys. body (int (fst p)) (snd p) = Inr ys \<and> x \<in> set ys"
proof (induction ps arbitrary: xs)
  case Nil
  then show ?case by simp
next
  case (Cons p ps)
  then show ?case by (fastforce split: sum.splits)
qed

lemma for_range_mem:
  assumes "for_range a b s body = Inr xs" and "x \<in> set xs"
  shows "\<exists>k ys. body (int k) (a + int k * s) = Inr ys \<and> x \<in> set ys"
proof -
  from assms(1) have r: "for_each (enumerate 0 (range_elems (Range a b s))) body = Inr xs"
    by (auto simp: for_range_def range3_def split: if_splits)
  from for_each_mem [OF r assms(2)] obtain p ys
    where p: "p \<in> set (enumerate 0 (range_elems (Range a b s)))"
      and b: "body (int (fst p)) (snd p) = Inr ys" "x \<in> set ys" by blast
  from p have "snd p = a + int (fst p) * s"
    by (auto simp: in_set_enumerate_eq range_elems_def)
  with b show ?thesis by metis
qed

lemma for_range_mem4:
  assumes "for_range a1 b1 s1 (\<lambda>i1 v1. for_range a2 b2 s2 (\<lambda>i2 v2.
             for_range a3 b3 s3 (\<lambda>i3 v3. for_range a4 b4 s4 (\<lambda>i4 v4.
               body i1 v1 i2 v2 i3 v3 i4 v4)))) = Inr xs"
    and "x \<in> set xs"
  shows "\<exists>k1 k2 k3 k4 ys.
           body (int k1) (a1 + int k1 * s1) (int k2) (a2 + int k2 * s2)
                (int k3) (a3 + int k3 * s3) (int k4) (a4 + int k4 * s4) = Inr ys
           \<and> x \<in> set ys"
proof -
  from for_range_mem [OF assms] obtain k1 p1
    where 1: "for_range a2 b2 s2 (\<lambda>i2 v2. for_range a3 b3 s3 (\<lambda>i3 v3.
                for_range a4 b4 s4 (\<lambda>i4 v4.
                  body (int k1) (a1 + int k1 * s1) i2 v2 i3 v3 i4 v4))) = Inr p1"
      and "x \<in> set p1" by blast
  from for_range_mem [OF this] obtain k2 p2
    where 2: "for_range a3 b3 s3 (\<lambda>i3 v3. for_range a4 b4 s4 (\<lambda>i4 v4.
                body (int k1) (a1 + int k1 * s1) (int k2) (a2 + int k2 * s2) i3 v3 i4 v4))
              = Inr p2"
      and "x \<in> set p2" by blast
  from for_range_mem [OF this] obtain k3 p3
    where 3: "for_range a4 b4 s4 (\<lambda>i4 v4.
                body (int k1) (a1 + int k1 * s1) (int k2) (a2 + int k2 * s2)
                     (int k3) (a3 + int k3 * s3) i4 v4) = Inr p3"
      and "x \<in> set p3" by blast
  from for_range_mem [OF this] show ?thesis by blast
qed

text \<open>The plan of the end-to-end scenario, its grid and the pipeline of its first tile.\<close>

lemma scenario_plan_eq:
  "load_chunks_from_czi scenario_file (TZYX 2 1 4 4) (TZYX 1 0 1 1) {} (TZYX 1 1 1 1) 0 =
     Inr [(TZYX 0 0 0 0, TZYX (range2 0 3) (range2 0 1) (range2 0 5) (range2 0 5)),
          (TZYX 0 0 0 1, TZYX (range2 0 3) (range2 0 1) (range2 0 5) (range2 3 8)),
          (TZYX 0 0 1 0, TZYX (range2 0 3) (range2 0 1) (range2 3 8) (range2 0 5)),
          (TZYX 0 0 1 1, TZYX (range2 0 3) (range2 0 1) (range2 3 8) (range2 3 8)),
          (TZYX 1 0 0 0, TZYX (range2 1 4) (range2 0 1) (range2 0 5) (range2 0 5)),
          (TZYX 1 0 0 1, TZYX (range2 1 4) (range2 0 1) (range2 0 5) (range2 3 8)),
          (TZYX 1 0 1 0, TZYX (range2 1 4) (range2 0 1) (range2 3 8) (range2 0 5)),
          (TZYX 1 0 1 1, TZYX (range2 1 4) (range2 0 1) (range2 3 8) (range2 3 8))]"
  by code_simp

lemma scenario_tile0:
  "run_tile scenario_file scenario_config (TZYX 2 1 2 2)
     (TZYX 0 0 0 0, TZYX (range2 0 3) (range2 0 1) (range2 0 5) (range2 0 5)) =
   Inr \<lparr> zw_section = TCZYX (Slice 0 (Some 2)) (Slice 0 None) (Slice 0 (Some 1))
                              (Slice 0 (Some 4)) (Slice 0 (Some 4)),
          zw_block = TCZYX [0, 1] [0, 1] [0] [0, 1, 2, 3] [0, 1, 2, 3] \<rparr>"
  by code_simp

lemma scenario_driver_tiles:
  "map_sum id (map fst) (driver scenario_file scenario_config None) =
     Inr [TZYX 0 0 0 0, TZYX 0 0 0 1, TZYX 0 0 1 0, TZYX 0 0 1 1,
          TZYX 1 0 0 0, TZYX 1 0 0 1, TZYX 1 0 1 0, TZYX 1 0 1 1]"
  by code_simp

lemma scenario_dims:
  "get_chunk_dims (get_czi_scene_shape scenario_file 0) (TZYX 2 1 4 4) = Inr (TZYX 2 1 2 2)"
  by code_simp

text \<open>The run on the 9-row image.\<close>

lemma gap_driver:
  "driver gap_file gap_config None =
     Inr [(TZYX 0 0 0 0,
           Inr \<lparr> zw_section = TCZYX (Slice 0 (Some 1)) (Slice 0 None) (Slice 0 (Some 1))
                                      (Slice 0 (Some 4)) (Slice 0 (Some 4)),
                  zw_block = TCZYX [0] [0] [0] [0, 1, 2, 3] [0, 1, 2, 3] \<rparr>),
          (TZYX 0 0 1 0,
           Inr \<lparr> zw_section = TCZYX (Slice 0 (Some 1)) (Slice 0 None) (Slice 0 (Some 1))
                                      (Slice 4 (Some 7)) (Slice 0 (Some 4)),
                  zw_block = TCZYX [0] [0] [0] [4, 5, 6] [0, 1, 2, 3] \<rparr>),
          (TZYX 0 0 2 0,
           Inr \<lparr> zw_section = TCZYX (Slice 0 (Some 1)) (Slice 0 None) (Slice 0 (Some 1))
                                      (Slice 8 (Some 9)) (Slice 0 (Some 4)),
                  zw_block = TCZYX [0] [0] [0] [8] [0, 1, 2, 3] \<rparr>)]"
  by code_simp

text \<open>
  Claim C5. For every tile in the plan, the read window on each axis runs from
  \<open>max (axis_start - overlap) axis_min\<close> to \<open>min (axis_min + axis_extent)
  (axis_start + tile_size + overlap)\<close>, where \<open>axis_start\<close> is \<open>axis_min\<close> plus the tile
  index times the tile size, and \<open>axis_min\<close> is 0 for T and Z and the origin of the
  bounding rectangle for Y and X. Every element of the window lies in the valid range
  of its axis, also at the grid boundary: the window is clamped.
\<close>

theorem plan_windows:
  assumes "load_chunks_from_czi input_file chunk_sizes overlap existing ratios scene = Inr plan"
    and "(idx, w) \<in> set plan"
  shows "tzyx_T w = range2 (max (tzyx_T idx * tzyx_T chunk_sizes - tzyx_T overlap) 0)
                      (min (snd (bbox_T input_file) - fst (bbox_T input_file))
                           (tzyx_T idx * tzyx_T chunk_sizes + tzyx_T chunk_sizes + tzyx_T overlap))
       \<and> tzyx_Z w = range2 (max (tzyx_Z idx * tzyx_Z chunk_sizes - tzyx_Z overlap) 0)
                      (min (snd (bbox_Z input_file) - fst (bbox_Z input_file))
                           (tzyx_Z idx * tzyx_Z chunk_sizes + tzyx_Z chunk_sizes + tzyx_Z overlap))
       \<and> tzyx_Y w = range2 (max (rect_y (bound_rect input_file scene) + tzyx_Y idx * tzyx_Y chunk_sizes
                                   - tzyx_Y overlap) (rect_y (bound_rect input_file scene)))
                      (min (rect_y (bound_rect input_file scene) + rect_h (bound_rect input_file scene))
                           (rect_y (bound_rect input_file scene) + tzyx_Y idx * tzyx_Y chunk_sizes
                              + tzyx_Y chunk_sizes + tzyx_Y overlap))
       \<and> tzyx_X w = range2 (max (rect_x (bound_rect input_file scene) + tzyx_X idx * tzyx_X chunk_sizes
                                   - tzyx_X overlap) (rect_x (bound_rect input_file scene)))
                      (min (rect_x (bound_rect input_file scene) + rect_w (bound_rect input_file scene))
                           (rect_x (bound_rect input_file scene) + tzyx_X idx * tzyx_X chunk_sizes
                              + tzyx_X chunk_sizes + tzyx_X overlap))
       \<and> set (range_elems (tzyx_T w)) \<subseteq> {0 ..< snd (bbox_T input_file) - fst (bbox_T input_file)}
       \<and> set (range_elems (tzyx_Z w)) \<subseteq> {0 ..< snd (bbox_Z input_file) - fst (bbox_Z input_file)}
       \<and> set (range_elems (tzyx_Y w)) \<subseteq>
           {rect_y (bound_rect input_file scene) ..<
            rect_y (bound_rect input_file scene) + rect_h (bound_rect input_file scene)}
       \<and> set (range_elems (tzyx_X w)) \<subseteq>
           {rect_x (bound_rect input_file scene) ..<
            rect_x (bound_rect input_file scene) + rect_w (bound_rect input_file scene)}"
proof -
  note plan = assms(1) [unfolded load_chunks_from_czi_def Let_def]
  from for_range_mem4 [OF plan assms(2)] show ?thesis
    by (auto simp: set_range2 split: if_splits)
qed

theorem plan_windows_witness:
  "(TZYX 1 0 1 1, TZYX (range2 1 4) (range2 0 1) (range2 3 8) (range2 3 8))
     \<in> set [(TZYX 0 0 0 0, TZYX (range2 0 3) (range2 0 1) (range2 0 5) (range2 0 5)),
            (TZYX 0 0 0 1, TZYX (range2 0 3) (range2 0 1) (range2 0 5) (range2 3 8)),
            (TZYX 0 0 1 0, TZYX (range2 0 3) (range2 0 1) (range2 3 8) (range2 0 5)),
            (TZYX 0 0 1 1, TZYX (range2 0 3) (range2 0 1) (range2 3 8) (range2 3 8)),
            (TZYX 1 0 0 0, TZYX (range2 1 4) (range2 0 1) (range2 0 5) (range2 0 5)),
            (TZYX 1 0 0 1, TZYX (range2 1 4) (range2 0 1) (range2 0 5) (range2 3 8)),
            (TZYX 1 0 1 0, TZYX (range2 1 4) (range2 0 1) (range2 3 8) (range2 0 5)),
            (TZYX 1 0 1 1, TZYX (range2 1 4) (range2 0 1) (range2 3 8) (range2 3 8))]
   \<and> set (range_elems (range2 1 4))
       \<subseteq> {0 ..< snd (bbox_T scenario_file) - fst (bbox_T scenario_file)}
   \<and> set (range_elems (range2 3 8)) \<subseteq>
       {rect_y (bound_rect scenario_file 0) ..<
        rect_y (bound_rect scenario_file 0) + rect_h (bound_rect scenario_file 0)}"
proof -
  have m: "(TZYX 1 0 1 1, TZYX (range2 1 4) (range2 0 1) (range2 3 8) (range2 3 8))
     \<in> set [(TZYX 0 0 0 0, TZYX (range2 0 3) (range2 0 1) (range2 0 5) (range2 0 5)),
            (TZYX 0 0 0 1, TZYX (range2 0 3) (range2 0 1) (range2 0 5) (range2 3 8)),
            (TZYX 0 0 1 0, TZYX (range2 0 3) (range2 0 1) (range2 3 8) (range2 0 5)),
            (TZYX 0 0 1 1, TZYX (range2 0 3) (range2 0 1) (range2 3 8) (range2 3 8)),
            (TZYX 1 0 0 0, TZYX (range2 1 4) (range2 0 1) (range2 0 5) (range2 0 5)),
            (TZYX 1 0 0 1, TZYX (range2 1 4) (range2 0 1) (range2 0 5) (range2 3 8)),
            (TZYX 1 0 1 0, TZYX (range2 1 4) (range2 0 1) (range2 3 8) (range2 0 5)),
            (TZYX 1 0 1 1, TZYX (range2 1 4) (range2 0 1) (range2 3 8) (range2 3 8))]"
    by simp
  let ?w = "TZYX (range2 1 4) (range2 0 1) (range2 3 8) (range2 3 8)"
  note pw = plan_windows [OF scenario_plan_eq m]
  from pw have "set (range_elems (tzyx_T ?w))
       \<subseteq> {0 ..< snd (bbox_T scenario_file) - fst (bbox_T scenario_file)}"
    by (elim conjE)
  moreover from pw have "set (range_elems (tzyx_Y ?w)) \<subseteq>
       {rect_y (bound_rect scenario_file 0) ..<
        rect_y (bound_rect scenario_file 0) + rect_h (bound_rect scenario_file 0)}"
    by (elim conjE)
  ultimately show ?thesis using m by simp
qed

section \<open>The end-to-end scenario\<close>

text \<open>
  Claim C2, as the code has it. With extent (T=4, C=2, Z=1, Y=8, X=8), tile size
  (T=2, Z=1, Y=4, X=4) and overlap (T=1, Z=0, Y=1, X=1) the grid is 2 by 1 by 2 by 2
  and the plan has exactly 8 tiles (two along T, since the T extent is twice the T tile
  size). The tile at grid position (0,0,0,0) gets the read windows Y=[0,5) and
  X=[0,5); after the shape-preserving transform and the trim its block is written to
  exactly Y=[0,4) and X=[0,4).
\<close>

theorem scenario_end_to_end:
  "get_chunk_dims (get_czi_scene_shape scenario_file 0) (TZYX 2 1 4 4) = Inr (TZYX 2 1 2 2)
   \<and> map_sum id length
        (load_chunks_from_czi scenario_file (TZYX 2 1 4 4) (TZYX 1 0 1 1) {} (TZYX 1 1 1 1) 0)
       = Inr (2 * 1 * 2 * 2)
   \<and> map_sum id (map fst) (driver scenario_file scenario_config None) =
       Inr [TZYX 0 0 0 0, TZYX 0 0 0 1, TZYX 0 0 1 0, TZYX 0 0 1 1,
            TZYX 1 0 0 0, TZYX 1 0 0 1, TZYX 1 0 1 0, TZYX 1 0 1 1]
   \<and> map_sum id (\<lambda>plan. map_of plan (TZYX 0 0 0 0))
        (load_chunks_from_czi scenario_file (TZYX 2 1 4 4) (TZYX 1 0 1 1) {} (TZYX 1 1 1 1) 0)
       = Inr (Some (TZYX (range2 0 3) (range2 0 1) (range2 0 5) (range2 0 5)))
   \<and> set (range_elems (range2 0 5)) = {0..<5}
   \<and> run_tile scenario_file scenario_config (TZYX 2 1 2 2)
         (TZYX 0 0 0 0, TZYX (range2 0 3) (range2 0 1) (range2 0 5) (range2 0 5)) =
       Inr \<lparr> zw_section = TCZYX (Slice 0 (Some 2)) (Slice 0 None) (Slice 0 (Some 1))
                                  (Slice 0 (Some 4)) (Slice 0 (Some 4)),
              zw_block = TCZYX [0, 1] [0, 1] [0] [0, 1, 2, 3] [0, 1, 2, 3] \<rparr>
   \<and> section_cells (Slice 0 (Some 4)) 8 = {0..<4}"
  by (simp add: scenario_plan_eq scenario_tile0 scenario_dims scenario_driver_tiles set_range2
      section_cells_def norm_index_def)

text \<open>The claim's count of 4 tiles is not what the plan builder produces.\<close>

theorem scenario_not_four_tiles:
  "map_sum id length
     (load_chunks_from_czi scenario_file (TZYX 2 1 4 4) (TZYX 1 0 1 1) {} (TZYX 1 1 1 1) 0)
   \<noteq> Inr 4"
  by (simp add: scenario_plan_eq)

section \<open>Trim and reassembly\<close>

text \<open>
  One axis of one tile. The window the plan builder gives tile \<open>k\<close> is sliced by
  \<open>trim\<close> to exactly the tile's own coordinates, from \<open>mn + k * cs\<close> up to the next
  tile or the end of the array, provided the window was not clamped on a side that
  \<open>trim\<close> cuts: the overlap is at most \<open>k * cs\<close> when the tile is not the first,
  and the whole upper overlap lies inside the array when the tile is not the last.
\<close>

lemma range_elems_range2: "range_elems (range2 a b) = map (\<lambda>k. a + int k) [0..<nat (b - a)]"
  by (auto simp: range_elems_def range2_def range_len_def)

lemma take_drop_range2:
  assumes "0 \<le> i" "i \<le> j" "j \<le> b - a"
  shows "take (nat (j - i)) (drop (nat i) (range_elems (range2 a b)))
           = range_elems (range2 (a + i) (a + j))"
proof (rule nth_equalityI)
  show "length (take (nat (j - i)) (drop (nat i) (range_elems (range2 a b))))
          = length (range_elems (range2 (a + i) (a + j)))"
    using assms by (simp add: range_elems_range2)
next
  fix k assume "k < length (take (nat (j - i)) (drop (nat i) (range_elems (range2 a b))))"
  then show "take (nat (j - i)) (drop (nat i) (range_elems (range2 a b))) ! k
          = range_elems (range2 (a + i) (a + j)) ! k"
    using assms by (simp add: range_elems_range2)
qed

lemma py_slice_range2:
  assumes "a \<le> b"
    and "norm_index lo (b - a) = i"
    and "(case hi of None \<Rightarrow> b - a | Some h \<Rightarrow> norm_index h (b - a)) = j"
    and "i \<le> j"
  shows "py_slice (Slice lo hi) (range_elems (range2 a b)) = range_elems (range2 (a + i) (a + j))"
proof -
  have n: "int (length (range_elems (range2 a b))) = b - a"
    using assms(1) by (simp add: range_elems_range2)
  have "0 \<le> i" using assms(1,2) by (auto simp: norm_index_def)
  moreover have "j \<le> b - a" using assms(1,3) by (auto simp: norm_index_def split: option.splits)
  ultimately have "take (nat (j - i)) (drop (nat i) (range_elems (range2 a b)))
           = range_elems (range2 (a + i) (a + j))"
    using assms(4) by (intro take_drop_range2)
  then show ?thesis
    unfolding py_slice_def Let_def n using assms(2,3) by simp
qed

lemma last_tile_iff:
  assumes "0 < cs" and "ceil_div ext cs = Inr n"
  shows "k < n - 1 \<longleftrightarrow> (k + 1) * cs < ext"
proof -
  from assms have n: "n = \<lceil>real_of_int ext / real_of_int cs\<rceil>"
    by (simp add: ceil_div_def)
  have "k + 1 < n \<longleftrightarrow> real_of_int (k + 1) < real_of_int ext / real_of_int cs"
    unfolding n by (rule less_ceiling_iff)
  also have "\<dots> \<longleftrightarrow> real_of_int (k + 1) * real_of_int cs < real_of_int ext"
    using assms(1) by (simp add: pos_less_divide_eq)
  also have "\<dots> \<longleftrightarrow> (k + 1) * cs < ext"
    by (metis of_int_less_iff of_int_mult)
  finally have "k + 1 < n \<longleftrightarrow> (k + 1) * cs < ext" .
  moreover have "k < n - 1 \<longleftrightarrow> k + 1 < n" by arith
  ultimately show ?thesis by simp
qed

lemma trim_axis_exact:
  fixes mn ext cs ov k n :: int
  assumes cs: "0 < cs" and ov: "0 \<le> ov" and k: "0 \<le> k" "k * cs < ext"
    and n: "ceil_div ext cs = Inr n"
    and lo: "0 < k \<Longrightarrow> ov \<le> k * cs"
    and hi: "k < n - 1 \<Longrightarrow> (k + 1) * cs + ov \<le> ext"
  shows "py_slice (trim_axis k n ov)
           (range_elems (range2 (max (mn + k * cs - ov) mn)
                                (min (mn + ext) (mn + k * cs + cs + ov))))
         = range_elems (range2 (mn + k * cs) (min (mn + ext) (mn + (k + 1) * cs)))"
proof -
  note l = last_tile_iff [OF cs n, of k]
  define a where "a = max (mn + k * cs - ov) mn"
  define b where "b = min (mn + ext) (mn + k * cs + cs + ov)"
  define i where "i = (if 0 < k then ov else 0)"
  define j where "j = (if k < n - 1 then b - a - ov else b - a)"
  have kc: "0 \<le> k * cs" using k(1) cs by simp
  have a: "a = (if 0 < k then mn + k * cs - ov else mn)"
    using lo ov k kc by (auto simp: a_def)
  have b: "b = (if k < n - 1 then mn + k * cs + cs + ov else mn + ext)"
    using hi l ov by (auto simp: b_def algebra_simps)
  have ab: "a \<le> b" "i \<le> j"
    using lo hi l ov k kc cs by (auto simp: a b i_def j_def algebra_simps)
  have ni: "norm_index (if 0 < k then ov else 0) (b - a) = i"
    using ab lo hi l ov k kc cs by (auto simp: a b i_def j_def norm_index_def algebra_simps)
  have nj: "(case (if 0 < ov \<and> k < n - 1 then Some (- ov) else None) of
               None \<Rightarrow> b - a | Some h \<Rightarrow> norm_index h (b - a)) = j"
    using ab lo hi l ov k kc cs by (auto simp: a b i_def j_def norm_index_def algebra_simps)
  have "py_slice (trim_axis k n ov) (range_elems (range2 a b))
          = range_elems (range2 (a + i) (a + j))"
    unfolding trim_axis_def using ab(1) ni nj ab(2) by (rule py_slice_range2)
  moreover have "a + i = mn + k * cs"
    using k(1) by (auto simp: a i_def)
  moreover have "a + j = min (mn + ext) (mn + (k + 1) * cs)"
    using l k hi ov by (auto simp: a b j_def algebra_simps)
  ultimately show ?thesis unfolding a_def b_def by simp
qed

text \<open>
  Claim C1. Trimming each tile of the plan should give a block of the nominal tile size
  along each tiled axis (the remainder for a short last tile), and the sections the
  trimmed blocks are written to, at offset tile index times tile size, should tile the
  output with no gap and no overlap. The code does not do so on the 9-row image: the
  run writes the rows [0,4), [4,7) and [8,9) of the nine. The block of the middle tile
  has 3 rows, not the nominal 4, and row 7 is written by no tile. The window of the
  middle tile is clamped at the end of the image to one row of overlap, and \<open>trim\<close>
  still takes two rows off, since it decides by grid position alone.
\<close>

theorem trim_leaves_gap:
  "get_czi_scene_shape gap_file 0 = TCZYX 1 1 1 9 4
   \<and> map_sum id (map (\<lambda>r. map_sum id (\<lambda>w. tczyx_Y (zw_section w)) (snd r)))
         (driver gap_file gap_config None)
       = Inr [Inr (Slice 0 (Some 4)), Inr (Slice 4 (Some 7)), Inr (Slice 8 (Some 9))]
   \<and> map_sum id (map (\<lambda>r. map_sum id (\<lambda>w. tczyx_Y (zw_block w)) (snd r)))
         (driver gap_file gap_config None)
       = Inr [Inr [0, 1, 2, 3], Inr [4, 5, 6], Inr [8]]
   \<and> 7 \<notin> section_cells (Slice 0 (Some 4)) 9 \<union> section_cells (Slice 4 (Some 7)) 9
           \<union> section_cells (Slice 8 (Some 9)) 9"
proof -
  have "get_czi_scene_shape gap_file 0 = TCZYX 1 1 1 9 4"
    by (simp add: get_czi_scene_shape_def gap_file_def bound_rect_def)
  then show ?thesis
    by (simp add: gap_driver section_cells_def norm_index_def)
qed

section \<open>Tile loader: what is checked before reading\<close>

lemma range_contains_range2:
  "range_contains (range2 a b) (range2 c d) \<longleftrightarrow> {a..<b} \<subseteq> {c..<d}"
  by (auto simp: range_contains_def range2_def range_len_def range_in_def range_last_def)

lemma read_planes_prefix:
  "prefix (fst (read_planes input_file scene roi target ps))
          (map (\<lambda>p. (fst p, snd p, roi)) ps)"
  by (induction ps) (auto split: sum.splits)

lemma read_planes_all:
  "snd (read_planes input_file scene roi target ps) = None
     \<Longrightarrow> fst (read_planes input_file scene roi target ps) = map (\<lambda>p. (fst p, snd p, roi)) ps"
  by (induction ps) (auto split: sum.splits if_splits)

lemma read_planes_first:
  "ps \<noteq> [] \<Longrightarrow> fst (read_planes input_file scene roi target ps) \<noteq> []
     \<and> hd (fst (read_planes input_file scene roi target ps)) = (fst (hd ps), snd (hd ps), roi)"
  by (cases ps) (auto split: sum.splits)

lemma planes_requests:
  "map (\<lambda>p. (fst p, snd p, roi)) (concat (map (\<lambda>t. map (\<lambda>z. (t, z)) zs) ts))
     = concat (map (\<lambda>t. map (\<lambda>z. (t, z, roi)) zs) ts)"
  by (simp add: map_concat comp_def)

lemma hd_planes:
  assumes "concat (map (\<lambda>t. map (\<lambda>z. (t, z)) zs) ts) \<noteq> []"
  shows "hd (concat (map (\<lambda>t. map (\<lambda>z. (t, z)) zs) ts)) = (hd ts, hd zs)"
proof (cases ts)
  case Nil
  with assms show ?thesis by simp
next
  case (Cons t ts')
  from assms have "zs \<noteq> []" by auto
  with Cons show ?thesis by (cases zs) auto
qed

lemma hd_range_elems: "range_elems r \<noteq> [] \<Longrightarrow> hd (range_elems r) = r_start r"
  by (simp add: range_elems_def hd_map upt_conv_Cons)

lemma planes_Nil_iff:
  "concat (map (\<lambda>t. map (\<lambda>z. (t, z)) zs) ts) = [] \<longleftrightarrow> ts = [] \<or> zs = []"
  by (cases ts; cases zs) auto

lemma scenario_load0:
  "load_chunk scenario_file (range2 0 3) (range2 0 1) (range2 0 5) (range2 0 5) 0 =
     \<lparr> reads = [(0, 0, Rectangle 0 0 5 5), (1, 0, Rectangle 0 0 5 5),
                (2, 0, Rectangle 0 0 5 5)],
       outcome = Inr (TCZYX [0, 1, 2] [0, 1] [0] [0, 1, 2, 3, 4] [0, 1, 2, 3, 4]) \<rparr>"
  by code_simp

text \<open>
  Claim C3, as the code has it. The loader checks the row window and the column window
  against the bounding rectangle of the scene before any read: when either is not
  contained it raises the out-of-range error and no read is issued. The T and Z
  windows are not checked by the loader. When the row and column windows pass, the
  reads it issues are, in order, the planes \<open>(t, z)\<close> of the T and Z windows as given,
  each with the region \<open>(x.start, y.start, len x, len y)\<close> of the windows as given,
  neither clipped nor wrapped; with a channel count that is not negative and T and Z
  windows that are not empty, the first plane of the windows is read whatever the
  windows are. What becomes of a plane outside the file is the reader's answer to that
  read. When the load succeeds every plane of the windows has been read, and the block
  holds on each tiled axis the coordinates of the window given.
\<close>

theorem load_chunk_checks_rows_and_columns:
  assumes "br = bound_rect input_file scene"
    and "Y = range2 (rect_y br) (rect_y br + rect_h br)"
    and "X = range2 (rect_x br) (rect_x br + rect_w br)"
    and "roi = Rectangle (r_start x_range) (r_start y_range) (range_len x_range) (range_len y_range)"
    and "requests = concat (map (\<lambda>t. map (\<lambda>z. (t, z, roi)) (range_elems z_range))
                                (range_elems t_range))"
    and "ld = load_chunk input_file t_range z_range y_range x_range scene"
  shows "(\<not> (range_contains y_range Y \<and> range_contains x_range X)
            \<longrightarrow> reads ld = []
                \<and> outcome ld = Inl (ValueError ''input range lies outside image''))
       \<and> (range_contains y_range Y \<and> range_contains x_range X
            \<longrightarrow> prefix (reads ld) requests
                \<and> (0 \<le> snd (bbox_C input_file) - fst (bbox_C input_file)
                      \<and> range_elems t_range \<noteq> [] \<and> range_elems z_range \<noteq> []
                    \<longrightarrow> reads ld \<noteq> []
                        \<and> hd (reads ld) = (r_start t_range, r_start z_range, roi))
                \<and> (\<forall>b. outcome ld = Inr b
                      \<longrightarrow> reads ld = requests
                          \<and> tczyx_T b = range_elems t_range
                          \<and> tczyx_Z b = range_elems z_range
                          \<and> tczyx_Y b
                              = [r_start y_range..r_start y_range + range_len y_range - 1]
                          \<and> tczyx_X b
                              = [r_start x_range..r_start x_range + range_len x_range - 1]))"
proof (intro conjI impI)
  let ?C = "snd (bbox_C input_file) - fst (bbox_C input_file)"
  let ?ps = "concat (map (\<lambda>t. map (\<lambda>z. (t, z)) (range_elems z_range)) (range_elems t_range))"
  let ?rp = "read_planes input_file scene roi (?C, range_len y_range, range_len x_range) ?ps"
  have rq: "requests = map (\<lambda>p. (fst p, snd p, roi)) ?ps"
    unfolding assms(5) by (simp only: planes_requests)
  {
    assume "\<not> (range_contains y_range Y \<and> range_contains x_range X)"
    then show "reads ld = []"
      and "outcome ld = Inl (ValueError ''input range lies outside image'')"
      unfolding assms by (simp_all add: load_chunk_def Let_def)
  }
  assume c: "range_contains y_range Y \<and> range_contains x_range X"
  have neg: "?C < 0 \<Longrightarrow> reads ld = [] \<and> (\<forall>b. outcome ld \<noteq> Inr b)"
    using c unfolding assms by (simp add: load_chunk_def Let_def)
  have pos: "\<not> ?C < 0 \<Longrightarrow> reads ld = fst ?rp
      \<and> outcome ld = (case snd ?rp of Some e \<Rightarrow> Inl e | None \<Rightarrow>
           Inr (TCZYX (range_elems t_range) [0..?C - 1] (range_elems z_range)
                  [r_start y_range..r_start y_range + range_len y_range - 1]
                  [r_start x_range..r_start x_range + range_len x_range - 1]))"
    using c unfolding assms by (simp add: load_chunk_def Let_def)
  show "prefix (reads ld) requests"
  proof (cases "?C < 0")
    case True
    with neg show ?thesis by simp
  next
    case False
    with pos show ?thesis unfolding rq by (simp add: read_planes_prefix)
  qed
  {
    assume a: "0 \<le> ?C \<and> range_elems t_range \<noteq> [] \<and> range_elems z_range \<noteq> []"
    then have ne: "?ps \<noteq> []" by (simp add: planes_Nil_iff)
    from a pos have r: "reads ld = fst ?rp" by simp
    from read_planes_first [OF ne] hd_planes [OF ne] a
    show "reads ld \<noteq> []" and "hd (reads ld) = (r_start t_range, r_start z_range, roi)"
      unfolding r by (simp_all add: hd_range_elems)
  }
  show "\<forall>b. outcome ld = Inr b
          \<longrightarrow> reads ld = requests
              \<and> tczyx_T b = range_elems t_range
              \<and> tczyx_Z b = range_elems z_range
              \<and> tczyx_Y b = [r_start y_range..r_start y_range + range_len y_range - 1]
              \<and> tczyx_X b = [r_start x_range..r_start x_range + range_len x_range - 1]"
  proof (intro allI impI)
    fix b assume b: "outcome ld = Inr b"
    with neg have nn: "\<not> ?C < 0" by auto
    from pos [OF nn] b have n: "snd ?rp = None"
      and e: "b = TCZYX (range_elems t_range) [0..?C - 1] (range_elems z_range)
                  [r_start y_range..r_start y_range + range_len y_range - 1]
                  [r_start x_range..r_start x_range + range_len x_range - 1]"
      by (auto split: option.splits)
    from pos [OF nn] read_planes_all [OF n] have "reads ld = requests"
      unfolding rq by simp
    with e show "reads ld = requests
              \<and> tczyx_T b = range_elems t_range
              \<and> tczyx_Z b = range_elems z_range
              \<and> tczyx_Y b = [r_start y_range..r_start y_range + range_len y_range - 1]
              \<and> tczyx_X b = [r_start x_range..r_start x_range + range_len x_range - 1]"
      by simp
  qed
qed

theorem load_chunk_checks_rows_and_columns_witness:
  "reads (load_chunk scenario_file (range2 0 3) (range2 0 1) (range2 6 10) (range2 0 5) 0) = []
   \<and> outcome (load_chunk scenario_file (range2 0 3) (range2 0 1) (range2 6 10) (range2 0 5) 0)
       = Inl (ValueError ''input range lies outside image'')
   \<and> prefix (reads (load_chunk scenario_file (range2 0 3) (range2 0 1) (range2 0 5) (range2 0 5) 0))
        [(0, 0, Rectangle 0 0 5 5), (1, 0, Rectangle 0 0 5 5), (2, 0, Rectangle 0 0 5 5)]
   \<and> hd (reads (load_chunk scenario_file (range2 0 3) (range2 0 1) (range2 0 5) (range2 0 5) 0))
       = (0, 0, Rectangle 0 0 5 5)
   \<and> reads (load_chunk scenario_file (range2 0 3) (range2 0 1) (range2 0 5) (range2 0 5) 0)
       = [(0, 0, Rectangle 0 0 5 5), (1, 0, Rectangle 0 0 5 5), (2, 0, Rectangle 0 0 5 5)]"
proof -
  have b: "bound_rect scenario_file 0 = Rectangle 0 0 8 8"
    by (simp add: bound_rect_def scenario_file_def)
  have c: "snd (bbox_C scenario_file) - fst (bbox_C scenario_file) = 2"
    by (simp add: scenario_file_def)
  have e: "range_elems (range2 0 3) = [0, 1, 2]" "range_elems (range2 0 1) = [0]"
    by (simp_all add: range_elems_def range2_def range_len_def upt_rec)
  have l: "range_len (range2 0 5) = 5" "r_start (range2 a b') = a" for a b'
    by (simp_all add: range2_def range_len_def)
  have n: "\<not> (range_contains (range2 6 10) (range2 0 8) \<and> range_contains (range2 0 5) (range2 0 8))"
    and y: "range_contains (range2 0 5) (range2 0 8) \<and> range_contains (range2 0 5) (range2 0 8)"
    by (simp_all add: range_contains_range2)
  note t1 = load_chunk_checks_rows_and_columns [OF refl refl refl refl refl refl,
      of "range2 6 10" scenario_file 0 "range2 0 5" "range2 0 3" "range2 0 1"]
  note t2 = load_chunk_checks_rows_and_columns [OF refl refl refl refl refl refl,
      of "range2 0 5" scenario_file 0 "range2 0 5" "range2 0 3" "range2 0 1"]
  from t1 n
  have f: "reads (load_chunk scenario_file (range2 0 3) (range2 0 1) (range2 6 10) (range2 0 5) 0) = []
   \<and> outcome (load_chunk scenario_file (range2 0 3) (range2 0 1) (range2 6 10) (range2 0 5) 0)
       = Inl (ValueError ''input range lies outside image'')"
    by (simp add: b)
  from t2 y
  have p: "prefix (reads (load_chunk scenario_file (range2 0 3) (range2 0 1) (range2 0 5) (range2 0 5) 0))
        [(0, 0, Rectangle 0 0 5 5), (1, 0, Rectangle 0 0 5 5), (2, 0, Rectangle 0 0 5 5)]"
    and h: "hd (reads (load_chunk scenario_file (range2 0 3) (range2 0 1) (range2 0 5) (range2 0 5) 0))
       = (0, 0, Rectangle 0 0 5 5)"
    by (simp_all add: b e l c)
  from t2 y scenario_load0
  have r: "reads (load_chunk scenario_file (range2 0 3) (range2 0 1) (range2 0 5) (range2 0 5) 0)
       = [(0, 0, Rectangle 0 0 5 5), (1, 0, Rectangle 0 0 5 5), (2, 0, Rectangle 0 0 5 5)]"
    by (simp add: b e l c)
  from f p h r show ?thesis by (intro conjI) (elim conjE; assumption)+
qed

text \<open>
  A T window that leaves the T range of the image is not refused before reading: plane
  3 is read, and the error comes from the reader when plane 4 is asked for.
\<close>

theorem load_chunk_does_not_check_T:
  "\<not> range_contains (range2 3 6)
        (range2 (fst (bbox_T scenario_file)) (snd (bbox_T scenario_file)))
   \<and> read_plane scenario_file 3 0 0 (Rectangle 0 0 5 5) = Inr (5, 5, 1)
   \<and> load_chunk scenario_file (range2 3 6) (range2 0 1) (range2 0 5) (range2 0 5) 0
     = \<lparr> reads = [(3, 0, Rectangle 0 0 5 5), (4, 0, Rectangle 0 0 5 5)],
         outcome = Inl (ReaderError ''T out of range'') \<rparr>"
  by code_simp

section \<open>Startup: the check of the store's chunk sizes\<close>

lemma check_chunks_Inr_iff:
  "check_chunks ps = Inr u \<longleftrightarrow> (\<forall>p \<in> set ps. fst p \<le> snd p \<and> fst p \<noteq> 0 \<and> snd p mod fst p = 0)"
  by (induction ps rule: check_chunks.induct) auto

lemma check_chunks_Inl:
  assumes "check_chunks ps = Inl e" and "\<forall>p \<in> set ps. fst p \<noteq> 0"
  shows "e = ValueError ''Dask chunks smaller than output chunks''
       \<or> e = ValueError ''Dask chunks not multiples of output chunks''"
  using assms by (induction ps rule: check_chunks.induct) (auto split: if_splits)

lemma get_chunk_dims_Inr:
  assumes "\<forall>d \<in> set (tzyx_list chunk_sizes). d \<noteq> 0"
  shows "\<exists>ca. get_chunk_dims file_values chunk_sizes = Inr ca"
  using assms by (simp add: get_chunk_dims_def ceil_div_def tzyx_list_def)

text \<open>
  Claim C8. When on some axis the chunk size of the output store is greater than the
  tile size or does not divide it, the driver ends in an error and no plan is built,
  so no tile work is scheduled. With no zero among the store's chunk sizes and the tile
  sizes the error is one of the two configuration errors of the check. Tile size 100
  with store chunk size 64 is rejected as not a multiple; tile size 128 with store
  chunk size 64 passes the check, and the chunk ratio is 2.
\<close>

theorem startup_rejects_bad_chunks:
  assumes "to_TCZYX (zarr_chunks (open_or_create cfg store)) = Inr store_chunks"
    and "\<exists>p \<in> set (zip (tzyx_list (tczyx_TZYX store_chunks)) (tzyx_list (cfg_chunk_sizes cfg))).
           fst p > snd p \<or> snd p mod fst p \<noteq> 0"
  shows "(\<exists>e. driver input_file cfg store = Inl e)
       \<and> ((\<forall>f_ch \<in> set (tzyx_list (tczyx_TZYX store_chunks)). f_ch \<noteq> 0)
            \<and> (\<forall>d_ch \<in> set (tzyx_list (cfg_chunk_sizes cfg)). d_ch \<noteq> 0)
          \<longrightarrow> driver input_file cfg store
                  = Inl (ValueError ''Dask chunks smaller than output chunks'')
              \<or> driver input_file cfg store
                  = Inl (ValueError ''Dask chunks not multiples of output chunks''))
       \<and> check_chunks (zip (tzyx_list (tczyx_TZYX (TCZYX 1 1 1 64 64))) (tzyx_list (TZYX 1 1 100 128)))
           = Inl (ValueError ''Dask chunks not multiples of output chunks'')
       \<and> check_chunks (zip (tzyx_list (tczyx_TZYX (TCZYX 1 1 1 64 64))) (tzyx_list (TZYX 1 1 128 128)))
           = Inr ()
       \<and> chunk_ratios (TZYX 1 1 128 128) (TCZYX 1 1 1 64 64) = Inr (TZYX 1 1 2 2)"
proof -
  let ?ps = "zip (tzyx_list (tczyx_TZYX store_chunks)) (tzyx_list (cfg_chunk_sizes cfg))"
  from assms(2) have "check_chunks ?ps \<noteq> Inr ()"
    unfolding check_chunks_Inr_iff by force
  then obtain e where e: "check_chunks ?ps = Inl e"
    by (cases "check_chunks ?ps") auto
  have 1: "\<exists>e. driver input_file cfg store = Inl e"
    using e assms(1) by (auto simp: driver_def Let_def split: sum.splits)
  have 2: "driver input_file cfg store
                  = Inl (ValueError ''Dask chunks smaller than output chunks'')
              \<or> driver input_file cfg store
                  = Inl (ValueError ''Dask chunks not multiples of output chunks'')"
    if f: "\<forall>f_ch \<in> set (tzyx_list (tczyx_TZYX store_chunks)). f_ch \<noteq> 0"
      and d: "\<forall>d_ch \<in> set (tzyx_list (cfg_chunk_sizes cfg)). d_ch \<noteq> 0"
  proof -
    from get_chunk_dims_Inr [OF d] obtain ca
      where ca: "get_chunk_dims (get_czi_scene_shape input_file (cfg_scene cfg)) (cfg_chunk_sizes cfg) = Inr ca"
      by blast
    from f have "\<forall>p \<in> set ?ps. fst p \<noteq> 0"
      by (auto dest: set_zip_leftD)
    from check_chunks_Inl [OF e this] have "driver input_file cfg store = Inl e"
      "e = ValueError ''Dask chunks smaller than output chunks''
       \<or> e = ValueError ''Dask chunks not multiples of output chunks''"
      using e ca assms(1) by (auto simp: driver_def Let_def)
    then show ?thesis by auto
  qed
  have 3: "check_chunks (zip (tzyx_list (tczyx_TZYX (TCZYX 1 1 1 64 64))) (tzyx_list (TZYX 1 1 100 128)))
           = Inl (ValueError ''Dask chunks not multiples of output chunks'')"
    "check_chunks (zip (tzyx_list (tczyx_TZYX (TCZYX 1 1 1 64 64))) (tzyx_list (TZYX 1 1 128 128)))
           = Inr ()"
    "chunk_ratios (TZYX 1 1 128 128) (TCZYX 1 1 1 64 64) = Inr (TZYX 1 1 2 2)"
    by (simp_all add: tzyx_list_def tczyx_TZYX_def chunk_ratios_def floor_div_def)
  from 1 2 3 show ?thesis by blast
qed

theorem startup_rejects_bad_chunks_witness:
  "driver scenario_file
     \<lparr> cfg_scene = 0, cfg_chunk_sizes = TZYX 2 1 4 100,
       cfg_overlaps = TZYX 1 0 1 1, cfg_output_chunks = TCZYX 2 2 1 4 64 \<rparr> None
     = Inl (ValueError ''Dask chunks smaller than output chunks'')
   \<or> driver scenario_file
     \<lparr> cfg_scene = 0, cfg_chunk_sizes = TZYX 2 1 4 100,
       cfg_overlaps = TZYX 1 0 1 1, cfg_output_chunks = TCZYX 2 2 1 4 64 \<rparr> None
     = Inl (ValueError ''Dask chunks not multiples of output chunks'')"
proof -
  let ?cfg = "\<lparr> cfg_scene = 0, cfg_chunk_sizes = TZYX 2 1 4 100,
       cfg_overlaps = TZYX 1 0 1 1, cfg_output_chunks = TCZYX 2 2 1 4 64 \<rparr>"
  have c: "to_TCZYX (zarr_chunks (open_or_create ?cfg None)) = Inr (TCZYX 2 2 1 4 64)"
    by (simp add: open_or_create_def tczyx_list_def)
  have b: "\<exists>p \<in> set (zip (tzyx_list (tczyx_TZYX (TCZYX 2 2 1 4 64)))
                         (tzyx_list (cfg_chunk_sizes ?cfg))).
             fst p > snd p \<or> snd p mod fst p \<noteq> 0"
    by (simp add: tzyx_list_def tczyx_TZYX_def)
  have z: "(\<forall>f_ch \<in> set (tzyx_list (tczyx_TZYX (TCZYX 2 2 1 4 64 :: int tczyx))). f_ch \<noteq> 0)
         \<and> (\<forall>d_ch \<in> set (tzyx_list (cfg_chunk_sizes ?cfg)). d_ch \<noteq> 0)"
    by (simp add: tzyx_list_def tczyx_TZYX_def)
  from startup_rejects_bad_chunks [OF c b, of scenario_file, THEN conjunct2, THEN conjunct1,
      rule_format, OF z]
  show ?thesis .
qed

section \<open>The snapshot of existing chunks\<close>

lemma sequence_Inr_D: "sequence rs = Inr vs \<Longrightarrow> rs = map Inr vs"
proof (induction rs arbitrary: vs)
  case Nil
  then show ?case by simp
next
  case (Cons r rs)
  then show ?case by (auto split: sum.splits)
qed

lemma sequence_map_filter:
  assumes "sequence (map f (filter P xs)) = Inr cs"
  shows "set cs = {c. \<exists>x \<in> set xs. P x \<and> f x = Inr c}"
    and "\<forall>x \<in> set xs. P x \<longrightarrow> (\<exists>c. f x = Inr c)"
proof -
  from assms have "map f (filter P xs) = map Inr cs"
    by (rule sequence_Inr_D)
  then have "set (map f (filter P xs)) = set (map Inr cs)" by simp
  then have eq: "f ` {x \<in> set xs. P x} = Inr ` set cs" by simp
  show "set cs = {c. \<exists>x \<in> set xs. P x \<and> f x = Inr c}"
  proof (intro set_eqI iffI)
    fix c assume "c \<in> set cs"
    then have "Inr c \<in> f ` {x \<in> set xs. P x}" using eq by simp
    then show "c \<in> {c. \<exists>x \<in> set xs. P x \<and> f x = Inr c}" by force
  next
    fix c assume "c \<in> {c. \<exists>x \<in> set xs. P x \<and> f x = Inr c}"
    then have "Inr c \<in> f ` {x \<in> set xs. P x}" by force
    then show "c \<in> set cs" using eq by auto
  qed
  show "\<forall>x \<in> set xs. P x \<longrightarrow> (\<exists>c. f x = Inr c)"
  proof (intro ballI impI)
    fix x assume "x \<in> set xs" "P x"
    then have "f x \<in> f ` {x \<in> set xs. P x}" by simp
    then show "\<exists>c. f x = Inr c" using eq by auto
  qed
qed

lemma existing_chunks_Inr:
  assumes "existing_chunks store_keys = Inr S"
  shows "S = tczyx_TZYX ` key_coords store_keys"
    and "\<forall>k \<in> set store_keys. k \<noteq> ''.zarray'' \<longrightarrow> (\<exists>c. parse_key k = Inr c)"
proof -
  from assms obtain cs
    where cs: "sequence (map parse_key (filter (\<lambda>k. k \<noteq> ''.zarray'') store_keys)) = Inr cs"
      and S: "S = set (map tczyx_TZYX cs)"
    unfolding existing_chunks_def by (cases "sequence (map parse_key (filter (\<lambda>k. k \<noteq> ''.zarray'') store_keys))") auto
  from sequence_map_filter(1) [OF cs] S
  show "S = tczyx_TZYX ` key_coords store_keys"
    unfolding key_coords_def by simp
  from sequence_map_filter(2) [OF cs]
  show "\<forall>k \<in> set store_keys. k \<noteq> ''.zarray'' \<longrightarrow> (\<exists>c. parse_key k = Inr c)" .
qed

lemma existing_chunks_one_channel:
  "existing_chunks [''.zarray'', ''0.0.0.0.0''] = Inr {TZYX 0 0 0 0}"
  by code_simp

lemma existing_chunks_two_channels:
  "existing_chunks [''.zarray'', ''0.0.0.0.0'', ''0.1.0.0.0''] = Inr {TZYX 0 0 0 0}"
  by code_simp

lemma key_coords_I:
  "k \<in> set store_keys \<Longrightarrow> k \<noteq> ''.zarray'' \<Longrightarrow> parse_key k = Inr c
     \<Longrightarrow> c \<in> key_coords store_keys"
  unfolding key_coords_def by (intro CollectI bexI [of _ k] conjI)

declare digits.simps [simp del]

lemma of_char_digit_char: "d < 10 \<Longrightarrow> (of_char (digit_char d) :: nat) = 48 + d"
  by (simp add: digit_char_def)

lemma is_digit_digit_char: "d < 10 \<Longrightarrow> is_digit (digit_char d)"
  by (simp add: is_digit_def of_char_digit_char)

lemma is_digit_not_punct:
  assumes "is_digit c"
  shows "c \<noteq> CHR ''.''" and "c \<noteq> CHR ''-''" and "c \<noteq> CHR ''+''"
  using assms by (auto simp: is_digit_def)

lemma digits_all: "list_all is_digit (digits n)"
proof (induction n rule: digits.induct)
  case (1 n)
  show ?case
  proof (cases "n < 10")
    case True
    then show ?thesis by (subst digits.simps) (simp add: is_digit_digit_char)
  next
    case False
    with 1 show ?thesis by (subst digits.simps) (simp add: is_digit_digit_char)
  qed
qed

lemma digits_not_Nil: "digits n \<noteq> []"
  by (subst digits.simps) simp

lemma digits_val_snoc: "digits_val (ds @ [c]) = 10 * digits_val ds + (int (of_char c) - 48)"
  by (simp add: digits_val_def)

lemma digits_val_digits: "digits_val (digits n) = int n"
proof (induction n rule: digits.induct)
  case (1 n)
  show ?case
  proof (cases "n < 10")
    case True
    then show ?thesis
      by (subst digits.simps) (simp add: digits_val_def of_char_digit_char)
  next
    case False
    with 1 have "digits_val (digits (n div 10)) = int (n div 10)" by simp
    moreover have "10 * int (n div 10) + int (n mod 10) = int n" by presburger
    ultimately show ?thesis using False
      by (subst digits.simps) (simp add: digits_val_snoc of_char_digit_char)
  qed
qed

lemma hd_digits: "is_digit (hd (digits n))"
  using digits_all [of n] digits_not_Nil [of n] by (cases "digits n") simp_all

lemma py_int_py_str: "py_int (py_str i) = Inr i"
proof (cases "i < 0")
  case True
  then show ?thesis
    by (simp add: py_int_def py_str_def Let_def digits_not_Nil digits_all digits_val_digits)
next
  case False
  have "hd (digits (nat i)) \<noteq> CHR ''-''" "hd (digits (nat i)) \<noteq> CHR ''+''"
    using hd_digits [of "nat i"] by (simp_all add: is_digit_not_punct)
  with False show ?thesis
    by (simp add: py_int_def py_str_def Let_def digits_not_Nil digits_all digits_val_digits)
qed

lemma py_str_no_dot: "CHR ''.'' \<notin> set (py_str i)"
proof -
  have "CHR ''.'' \<notin> set (digits n)" for n
    using digits_all [of n] is_digit_not_punct(1) by (auto simp: list_all_iff)
  then show ?thesis by (simp add: py_str_def)
qed

lemma split_dot_no_dot: "CHR ''.'' \<notin> set s \<Longrightarrow> split_dot s = [s]"
  by (induction s) auto

lemma split_dot_append: "CHR ''.'' \<notin> set s \<Longrightarrow> split_dot (s @ CHR ''.'' # r) = s # split_dot r"
  by (induction s) auto

lemma parse_key_chunk_key: "parse_key (chunk_key c) = Inr c"
proof (cases c)
  case (TCZYX t ch z y x)
  have "split_dot (chunk_key c) = [py_str t, py_str ch, py_str z, py_str y, py_str x]"
    unfolding chunk_key_def TCZYX tczyx.sel
    by (simp add: split_dot_append split_dot_no_dot py_str_no_dot)
  then show ?thesis
    by (simp add: parse_key_def py_int_py_str TCZYX)
qed

lemma sequence_map_Inr: "sequence (map Inr vs) = Inr vs"
  by (induction vs) auto

lemma parse_key_zarray: "parse_key ''.zarray'' = Inl (ValueError ''invalid literal for int() with base 10'')"
  by code_simp

lemma chunk_key_not_zarray: "chunk_key c \<noteq> ''.zarray''"
proof
  assume "chunk_key c = ''.zarray''"
  then have "parse_key (chunk_key c) = parse_key ''.zarray''" by (rule arg_cong)
  then show False by (simp add: parse_key_chunk_key parse_key_zarray)
qed

lemma existing_chunks_chunk_keys:
  "existing_chunks (''.zarray'' # map chunk_key cs) = Inr (tczyx_TZYX ` set cs)"
proof -
  have "filter (\<lambda>k. k \<noteq> ''.zarray'') (map chunk_key cs) = map chunk_key cs"
    by (simp add: filter_id_conv chunk_key_not_zarray)
  then have "map parse_key (filter (\<lambda>k. k \<noteq> ''.zarray'') (''.zarray'' # map chunk_key cs))
               = map Inr cs"
    by (simp add: parse_key_chunk_key comp_def)
  then show ?thesis
    unfolding existing_chunks_def by (simp only: sequence_map_Inr sum.case set_map)
qed

lemma existing_chunks_props:
  assumes "existing_chunks store_keys = Inr S"
  shows "(\<forall>k \<in> set store_keys. k \<noteq> ''.zarray''
            \<longrightarrow> (\<exists>c. parse_key k = Inr c \<and> tczyx_TZYX c \<in> S))
       \<and> (\<forall>t z y x. TZYX t z y x \<in> S
            \<longleftrightarrow> (\<exists>c. TCZYX t c z y x \<in> key_coords store_keys))
       \<and> (\<forall>keys' S'. existing_chunks keys' = Inr S'
              \<and> tczyx_TZYX ` key_coords keys' = tczyx_TZYX ` key_coords store_keys
            \<longrightarrow> check_existing_chunks tile ratios S' = check_existing_chunks tile ratios S)"
proof (intro conjI ballI allI impI)
  note S = existing_chunks_Inr(1) [OF assms]
  {
    fix k assume k: "k \<in> set store_keys" "k \<noteq> ''.zarray''"
    from existing_chunks_Inr(2) [OF assms, rule_format, OF k]
    obtain c where c: "parse_key k = Inr c" by (elim exE)
    from key_coords_I [OF k c] have "tczyx_TZYX c \<in> S" unfolding S by (rule imageI)
    with c show "\<exists>c. parse_key k = Inr c \<and> tczyx_TZYX c \<in> S"
      by (intro exI [of _ c] conjI)
  }
  {
    fix t z y x
    show "TZYX t z y x \<in> S \<longleftrightarrow> (\<exists>c. TCZYX t c z y x \<in> key_coords store_keys)"
    proof
      assume "TZYX t z y x \<in> S"
      then have "TZYX t z y x \<in> tczyx_TZYX ` key_coords store_keys" unfolding S .
      then obtain c5 where c5: "c5 \<in> key_coords store_keys" "TZYX t z y x = tczyx_TZYX c5"
        by (elim imageE)
      obtain t' c z' y' x' where e: "c5 = TCZYX t' c z' y' x'" by (cases c5)
      with c5(2) have "t' = t" "z' = z" "y' = y" "x' = x"
        by (simp_all add: tczyx_TZYX_def)
      with e c5(1) have "TCZYX t c z y x \<in> key_coords store_keys" by simp
      then show "\<exists>c. TCZYX t c z y x \<in> key_coords store_keys" ..
    next
      assume "\<exists>c. TCZYX t c z y x \<in> key_coords store_keys"
      then obtain c where "TCZYX t c z y x \<in> key_coords store_keys" ..
      then have "tczyx_TZYX (TCZYX t c z y x) \<in> S" unfolding S by (rule imageI)
      then show "TZYX t z y x \<in> S" by (simp add: tczyx_TZYX_def)
    qed
  }
  {
    fix keys' S'
    assume a: "existing_chunks keys' = Inr S'
       \<and> tczyx_TZYX ` key_coords keys' = tczyx_TZYX ` key_coords store_keys"
    from a have "S' = tczyx_TZYX ` key_coords keys'" by (intro existing_chunks_Inr(1)) (elim conjE)
    with a S have "S' = S" by simp
    then show "check_existing_chunks tile ratios S' = check_existing_chunks tile ratios S"
      by simp
  }
qed

lemma chunk_key_recorded:
  assumes "existing_chunks store_keys = Inr S"
    and "chunk_key (TCZYX t c z y x) \<in> set store_keys"
  shows "TZYX t z y x \<in> S"
proof -
  from key_coords_I [OF assms(2) chunk_key_not_zarray parse_key_chunk_key]
  have "tczyx_TZYX (TCZYX t c z y x) \<in> tczyx_TZYX ` key_coords store_keys" by (rule imageI)
  then show ?thesis
    unfolding existing_chunks_Inr(1) [OF assms(1)] by (simp add: tczyx_TZYX_def)
qed

lemma chunk_key_example: "chunk_key (TCZYX 3 1 4 1 5) = ''3.1.4.1.5''"
  by code_simp

text \<open>
  Claim C10. The snapshot parses every key of the store except \<^verbatim>\<open>.zarray\<close> as a
  five-axis TCZYX coordinate and drops the channel axis. The key of a chunk parses to
  the coordinate of the chunk, and the snapshot of a store that holds \<^verbatim>\<open>.zarray\<close> and
  the keys of some chunks is the set of the TZYX parts of their coordinates. So a TZYX
  coordinate is in the snapshot as soon as the key of one channel index at it is in the
  store, and exactly when the key of some channel index at it is. Two stores whose
  keys name the same TZYX coordinates, whatever the channels, give the same skip
  decision for every tile.
\<close>

theorem existing_chunks_drops_channel:
  "parse_key (chunk_key c5) = Inr c5
   \<and> existing_chunks (''.zarray'' # map chunk_key cs) = Inr (tczyx_TZYX ` set cs)
   \<and> (existing_chunks store_keys = Inr S \<longrightarrow>
        (\<forall>k \<in> set store_keys. k \<noteq> ''.zarray''
            \<longrightarrow> (\<exists>c. parse_key k = Inr c \<and> tczyx_TZYX c \<in> S))
        \<and> (\<forall>t c z y x. chunk_key (TCZYX t c z y x) \<in> set store_keys \<longrightarrow> TZYX t z y x \<in> S)
        \<and> (\<forall>t z y x. TZYX t z y x \<in> S
            \<longleftrightarrow> (\<exists>c. TCZYX t c z y x \<in> key_coords store_keys))
        \<and> (\<forall>keys' S'. existing_chunks keys' = Inr S'
              \<and> tczyx_TZYX ` key_coords keys' = tczyx_TZYX ` key_coords store_keys
            \<longrightarrow> check_existing_chunks tile ratios S' = check_existing_chunks tile ratios S))"
proof (intro conjI impI)
  show "parse_key (chunk_key c5) = Inr c5" by (rule parse_key_chunk_key)
  show "existing_chunks (''.zarray'' # map chunk_key cs) = Inr (tczyx_TZYX ` set cs)"
    by (rule existing_chunks_chunk_keys)
  assume a: "existing_chunks store_keys = Inr S"
  note p = existing_chunks_props [OF a, of tile ratios]
  from p show "\<forall>k \<in> set store_keys. k \<noteq> ''.zarray''
            \<longrightarrow> (\<exists>c. parse_key k = Inr c \<and> tczyx_TZYX c \<in> S)"
    by (rule conjunct1)
  show "\<forall>t c z y x. chunk_key (TCZYX t c z y x) \<in> set store_keys \<longrightarrow> TZYX t z y x \<in> S"
    by (intro allI impI) (rule chunk_key_recorded [OF a])
  from p [THEN conjunct2] show "\<forall>t z y x. TZYX t z y x \<in> S
            \<longleftrightarrow> (\<exists>c. TCZYX t c z y x \<in> key_coords store_keys)"
    by (rule conjunct1)
  from p [THEN conjunct2] show "\<forall>keys' S'. existing_chunks keys' = Inr S'
              \<and> tczyx_TZYX ` key_coords keys' = tczyx_TZYX ` key_coords store_keys
            \<longrightarrow> check_existing_chunks tile ratios S' = check_existing_chunks tile ratios S"
    by (rule conjunct2)
qed

theorem existing_chunks_drops_channel_witness:
  "parse_key ''3.1.4.1.5'' = Inr (TCZYX 3 1 4 1 5)
   \<and> existing_chunks [''.zarray'', ''3.1.4.1.5''] = Inr {TZYX 3 4 1 5}
   \<and> (\<exists>c. TCZYX 3 c 4 1 5 \<in> key_coords [''.zarray'', ''3.1.4.1.5''])
   \<and> check_existing_chunks (TZYX 3 4 1 5) (TZYX 1 1 1 1) {TZYX 3 4 1 5}"
proof -
  note t = existing_chunks_drops_channel [of "TCZYX 3 1 4 1 5" "[TCZYX 3 1 4 1 5]"
      "[''.zarray'', ''3.1.4.1.5'']" "{TZYX 3 4 1 5}"]
  from t [THEN conjunct1] have 1: "parse_key ''3.1.4.1.5'' = Inr (TCZYX 3 1 4 1 5)"
    by (simp only: chunk_key_example)
  from t [THEN conjunct2, THEN conjunct1]
  have 2: "existing_chunks [''.zarray'', ''3.1.4.1.5''] = Inr {TZYX 3 4 1 5}"
    by (simp add: chunk_key_example tczyx_TZYX_def)
  note h = t [THEN conjunct2, THEN conjunct2, rule_format, OF 2]
  have "TZYX 3 4 1 5 \<in> {TZYX 3 4 1 5 :: int tzyx}" by simp
  then have 3: "\<exists>c. TCZYX 3 c 4 1 5 \<in> key_coords [''.zarray'', ''3.1.4.1.5'']"
    by (rule h [THEN conjunct2, THEN conjunct2, THEN conjunct1, rule_format, THEN iffD1])
  have 4: "check_existing_chunks (TZYX 3 4 1 5) (TZYX 1 1 1 1) {TZYX 3 4 1 5}"
    by code_simp
  show ?thesis by (intro conjI 1 2 3 4)
qed

end
